theory Spec2Isabelle
  imports Main
begin

section \<open>Documents of the external store\<close>

text \<open>
  The application keeps its data in three collections of the external document store:
  \<^verbatim>\<open>sessions\<close>, \<^verbatim>\<open>therapistSlots\<close> and \<^verbatim>\<open>sessionNotes\<close>. The types below follow the
  TypeScript types \<^verbatim>\<open>Session\<close> (pages/therapist/Sessions.tsx, pages/patient/Sessions.tsx)
  and \<^verbatim>\<open>SlotDoc\<close> (hooks/useTherapistSlots). An optional field \<^verbatim>\<open>f?: T\<close> is a
  \<open>T option\<close>; a timestamp is the number of milliseconds since the epoch.
\<close>

datatype session_status = Pending | Confirmed | Completed | Cancelled

text \<open>The argument type of \<^verbatim>\<open>updateSessionStatus\<close>:
  \<^verbatim>\<open>newStatus: 'confirmed' | 'completed' | 'cancelled'\<close>.\<close>

datatype new_status = NewConfirmed | NewCompleted | NewCancelled

fun status_of :: "new_status \<Rightarrow> session_status" where
  "status_of NewConfirmed = Confirmed"
| "status_of NewCompleted = Completed"
| "status_of NewCancelled = Cancelled"

datatype request_status = ReqPending | ReqAccepted | ReqDeclined

text \<open>The argument type of \<^verbatim>\<open>respondToVideoCallRequest\<close>:
  \<^verbatim>\<open>response: 'accepted' | 'declined'\<close>.\<close>

datatype response = Accepted | Declined

fun request_status_of :: "response \<Rightarrow> request_status" where
  "request_status_of Accepted = ReqAccepted"
| "request_status_of Declined = ReqDeclined"

datatype video_call_status = CallActive | CallEnded | CallScheduled

record video_call_request =
  req_status :: request_status
  requestedAt :: "int option"
  respondedAt :: "int option"
  requestedBy :: "string option"

record session =
  patientId :: string
  therapistId :: string
  slotId :: "string option"
  date :: string
  time :: string
  status :: session_status
  createdAt :: "int option"
  updatedAt :: "int option"
  patientName :: "string option"
  therapistName :: "string option"
  videoCallRoomId :: "string option"
  meetingId :: "string option"
  videoCallStarted :: "int option"
  videoCallEnded :: "int option"
  videoCallStatus :: "video_call_status option"
  videoCallRequest :: "video_call_request option"

record slot =
  slot_therapistId :: string
  slot_date :: string
  timeRange :: string
  isBooked :: bool
  bookedBy :: "string option"
  bookedAt :: "int option"

record session_note =
  note_sessionId :: string
  note_therapistId :: string
  note_patientId :: string
  note_content :: string
  note_createdAt :: int

text \<open>A collection is a list of documents with their ids, in creation order.\<close>

type_synonym 'a collection = "(string \<times> 'a) list"

record store =
  sessions :: "session collection"
  therapistSlots :: "slot collection"
  sessionNotesDocs :: "session_note collection"

subsection \<open>The store's write operations\<close>

text \<open>
  The store is an external collaborator; the code calls it through \<^verbatim>\<open>addDoc\<close>,
  \<^verbatim>\<open>updateDoc\<close> and \<^verbatim>\<open>deleteDoc\<close>. \<^verbatim>\<open>addDoc\<close> creates a document under an id the
  store generates (here a parameter), \<^verbatim>\<open>updateDoc\<close> changes the named fields of an
  existing document and rejects when the document does not exist, \<^verbatim>\<open>deleteDoc\<close>
  removes the document when there is one. Each is one atomic write of one document. A
  document with an undefined field is refused.
\<close>

datatype store_error = NotFound | InvalidData

definition addDoc :: "string \<Rightarrow> 'a \<Rightarrow> 'a collection \<Rightarrow> 'a collection" where
  "addDoc newId d col = col @ [(newId, d)]"

text \<open>The document \<open>k\<close> of a collection changed by \<open>f\<close>, the others as they were. The
  pages change their own lists the same way:
  \<^verbatim>\<open>setSessions(prev => prev.map(s => s.id === sessionId ? {...s, ...} : s))\<close>.\<close>

definition patch :: "string \<Rightarrow> ('a \<Rightarrow> 'a) \<Rightarrow> 'a collection \<Rightarrow> 'a collection" where
  "patch k f col = map (\<lambda>(k', d). if k' = k then (k', f d) else (k', d)) col"

definition updateDoc ::
  "string \<Rightarrow> ('a \<Rightarrow> 'a) \<Rightarrow> 'a collection \<Rightarrow> store_error + 'a collection" where
  "updateDoc k f col =
     (case map_of col k of
        None \<Rightarrow> Inl NotFound
      | Some _ \<Rightarrow> Inr (patch k f col))"

definition deleteDoc :: "string \<Rightarrow> 'a collection \<Rightarrow> 'a collection" where
  "deleteDoc k col = filter (\<lambda>(k', d). k' \<noteq> k) col"

text \<open>What an operation of a page leaves behind: the page's new state, the store, the
  alerts shown, the timers set (delay in milliseconds and what runs then) and the number
  of room requests sent to the call provider.\<close>

datatype timer = LoadSlots | StartVideoCall string string string

record 'p result =
  page :: 'p
  db :: store
  alerts :: "string list"
  timers :: "(nat \<times> timer) list"
  provider_calls :: nat

definition unchanged :: "'p \<Rightarrow> store \<Rightarrow> 'p result" where
  "unchanged pg st = \<lparr>page = pg, db = st, alerts = [], timers = [], provider_calls = 0\<rparr>"

section \<open>Booking a slot (pages/patient/Therapists.tsx)\<close>

record user =
  user_id :: string
  user_name :: string

record therapist =
  therapist_id :: string
  therapist_name :: string

record therapists_page =
  selectedTherapist :: "therapist option"
  selectedDate :: "string option"
  availableSlots :: "slot collection"
  booking :: bool

text \<open>\<^verbatim>\<open>slot.timeRange.split(' - ')[0]\<close>: the text before the first separator, the whole
  text when there is none.\<close>

fun before_sep :: "string \<Rightarrow> string \<Rightarrow> string" where
  "before_sep sep [] = []"
| "before_sep sep (c # cs) =
     (if take (length sep) (c # cs) = sep then [] else c # before_sep sep cs)"

text \<open>\<^verbatim>\<open>loadSlots\<close>: the therapist's slots of the selected date, and of these
  "only show slots that are not booked".\<close>

definition loadSlots :: "therapists_page \<Rightarrow> store \<Rightarrow> therapists_page" where
  "loadSlots pg st =
     (case selectedTherapist pg of
        None \<Rightarrow> pg
      | Some th \<Rightarrow>
          (case selectedDate pg of
             None \<Rightarrow> pg
           | Some dateStr \<Rightarrow>
               pg\<lparr>availableSlots :=
                 filter (\<lambda>(k, s). \<not> isBooked s)
                   (filter (\<lambda>(k, s). slot_therapistId s = therapist_id th \<and> slot_date s = dateStr)
                      (therapistSlots st))\<rparr>))"

text \<open>The two writes of \<^verbatim>\<open>bookSession\<close>, in the order the code issues them: the session
  record first, then the slot.\<close>

definition new_session :: "user \<Rightarrow> therapist \<Rightarrow> string \<times> slot \<Rightarrow> int \<Rightarrow> session" where
  "new_session u th sl now =
     \<lparr>patientId = user_id u, therapistId = therapist_id th, slotId = Some (fst sl),
      date = slot_date (snd sl), time = before_sep '' - '' (timeRange (snd sl)),
      status = Pending, createdAt = Some now, updatedAt = None,
      patientName = Some (user_name u), therapistName = Some (therapist_name th),
      videoCallRoomId = None, meetingId = None, videoCallStarted = None,
      videoCallEnded = None, videoCallStatus = None, videoCallRequest = None\<rparr>"

definition create_session_record ::
  "user \<Rightarrow> therapist \<Rightarrow> string \<times> slot \<Rightarrow> int \<Rightarrow> string \<Rightarrow> store \<Rightarrow> store_error + store" where
  "create_session_record u th sl now newId st =
     Inr (st\<lparr>sessions := addDoc newId (new_session u th sl now) (sessions st)\<rparr>)"

definition mark_slot_booked :: "user \<Rightarrow> string \<Rightarrow> int \<Rightarrow> store \<Rightarrow> store_error + store" where
  "mark_slot_booked u slotKey now st =
     (case updateDoc slotKey
             (\<lambda>d. d\<lparr>isBooked := True, bookedBy := Some (user_id u), bookedAt := Some now\<rparr>)
             (therapistSlots st) of
        Inl e \<Rightarrow> Inl e
      | Inr slots' \<Rightarrow> Inr (st\<lparr>therapistSlots := slots'\<rparr>))"

definition bookSession ::
  "user \<Rightarrow> therapists_page \<Rightarrow> string \<times> slot \<Rightarrow> int \<Rightarrow> string \<Rightarrow> store \<Rightarrow>
     therapists_page result" where
  "bookSession u pg sl now newId st =
     (case selectedTherapist pg of
        None \<Rightarrow> unchanged pg st
      | Some th \<Rightarrow>
          if user_id u = [] \<or> booking pg then unchanged pg st
          else
            (case create_session_record u th sl now newId st of
               Inl e \<Rightarrow>
                 \<lparr>page = pg\<lparr>booking := False\<rparr>, db = st,
                  alerts = [''Failed to book session. Please try again.''],
                  timers = [], provider_calls = 0\<rparr>
             | Inr st1 \<Rightarrow>
                 (case mark_slot_booked u (fst sl) now st1 of
                    Inl e \<Rightarrow>
                      \<lparr>page = pg\<lparr>booking := False\<rparr>, db = st1,
                       alerts = [''Failed to book session. Please try again.''],
                       timers = [], provider_calls = 0\<rparr>
                  | Inr st2 \<Rightarrow>
                      \<lparr>page = pg\<lparr>availableSlots :=
                                  filter (\<lambda>s. fst s \<noteq> fst sl) (availableSlots pg),
                                selectedTherapist := None, booking := False\<rparr>,
                       db = st2,
                       alerts = [''Session booked successfully! Waiting for therapist confirmation.''],
                       timers = [(1000, LoadSlots)], provider_calls = 0\<rparr>)))"

section \<open>The therapist's sessions page (therapy-main: pages/therapist/Sessions.tsx)\<close>

record active_call =
  call_sessionId :: string
  call_peerName :: string
  call_peerId :: string
  call_meetingId :: "string option"

record therapist_page =
  t_sessions :: "session collection"
  sessionNotes :: "(string \<times> string) list"
  updating :: "string option"
  activeVideoCall :: "active_call option"
  videoCallLoading :: "string option"

text \<open>\<^verbatim>\<open>createMeeting\<close> (components/VideoSDKCall.tsx) posts a room request to the call
  provider and returns the \<^verbatim>\<open>roomId\<close> of the reply. What the provider answers is outside
  the program: the request fails (the fetch or the parsing of the reply throws), or a
  reply arrives whose \<^verbatim>\<open>roomId\<close> may be missing.\<close>

datatype provider_reply = RequestFails | Reply "string option"

datatype call_error = ProviderFailed | NoRoomId

definition createMeeting :: "provider_reply \<Rightarrow> call_error + string option" where
  "createMeeting r = (case r of RequestFails \<Rightarrow> Inl ProviderFailed | Reply roomId \<Rightarrow> Inr roomId)"

text \<open>\<^verbatim>\<open>if (!meetingId) throw new Error('Failed to create meeting room')\<close>: a missing
  and an empty room id are both refused.\<close>

definition checked_meeting :: "provider_reply \<Rightarrow> call_error + string" where
  "checked_meeting r =
     (case createMeeting r of
        Inl e \<Rightarrow> Inl e
      | Inr None \<Rightarrow> Inl NoRoomId
      | Inr (Some m) \<Rightarrow> if m = [] then Inl NoRoomId else Inr m)"

definition respondToVideoCallRequest ::
  "therapist_page \<Rightarrow> string \<Rightarrow> response \<Rightarrow> string \<Rightarrow> string \<Rightarrow> int \<Rightarrow> store \<Rightarrow>
     therapist_page result" where
  "respondToVideoCallRequest pg sessionId resp patId patName now st =
     (case updateDoc sessionId
             (\<lambda>d. d\<lparr>videoCallRequest :=
                Some (case videoCallRequest d of
                        None \<Rightarrow> \<lparr>req_status = request_status_of resp, requestedAt = None,
                                  respondedAt = Some now, requestedBy = None\<rparr>
                      | Some r \<Rightarrow> r\<lparr>req_status := request_status_of resp,
                                     respondedAt := Some now\<rparr>)\<rparr>)
             (sessions st) of
        Inl e \<Rightarrow>
          \<lparr>page = pg\<lparr>videoCallLoading := None\<rparr>, db = st,
           alerts = [''Failed to respond to video call request. Please try again.''],
           timers = [], provider_calls = 0\<rparr>
      | Inr ss \<Rightarrow>
          \<lparr>page = pg\<lparr>t_sessions :=
                      patch sessionId
                        (\<lambda>s. s\<lparr>videoCallRequest :=
                           map_option (\<lambda>r. r\<lparr>req_status := request_status_of resp,
                                               respondedAt := Some now\<rparr>)
                             (videoCallRequest s)\<rparr>)
                        (t_sessions pg),
                    videoCallLoading := None\<rparr>,
           db = st\<lparr>sessions := ss\<rparr>,
           alerts = (case resp of
                       Accepted \<Rightarrow> []
                     | Declined \<Rightarrow> [''Video call request declined for '' @ patName @ ''.'']),
           timers = (case resp of
                       Accepted \<Rightarrow> [(500, StartVideoCall sessionId patId patName)]
                     | Declined \<Rightarrow> []),
           provider_calls = 0\<rparr>)"

text \<open>The slot fields written when a cancelled session gives its slot back.\<close>

definition release_slot :: "slot \<Rightarrow> slot" where
  "release_slot d = d\<lparr>isBooked := False, bookedBy := None, bookedAt := None\<rparr>"

text \<open>The write inside the inner \<^verbatim>\<open>try\<close> of \<^verbatim>\<open>updateSessionStatus\<close>: its failure is
  logged and goes no further.\<close>

definition make_slot_available :: "string \<Rightarrow> store \<Rightarrow> store" where
  "make_slot_available slotKey st =
     (case updateDoc slotKey release_slot (therapistSlots st) of
        Inl e \<Rightarrow> st
      | Inr slots' \<Rightarrow> st\<lparr>therapistSlots := slots'\<rparr>)"

text \<open>\<^verbatim>\<open>newStatus === 'completed' && sessionNotes[sessionId]\<close>: the note is saved when
  the therapist typed one. The patient of the note is read from the page's list of
  sessions; a note without it is refused by the store (a field may not be undefined).\<close>

definition save_session_note ::
  "user \<Rightarrow> therapist_page \<Rightarrow> string \<Rightarrow> string \<Rightarrow> int \<Rightarrow> string \<Rightarrow> store \<Rightarrow> store_error + store" where
  "save_session_note u pg sessionId content now newId st =
     (case map_of (t_sessions pg) sessionId of
        None \<Rightarrow> Inl InvalidData
      | Some s \<Rightarrow>
          Inr (st\<lparr>sessionNotesDocs :=
                 addDoc newId
                   \<lparr>note_sessionId = sessionId, note_therapistId = user_id u,
                    note_patientId = patientId s, note_content = content,
                    note_createdAt = now\<rparr>
                   (sessionNotesDocs st)\<rparr>))"

definition note_to_save :: "therapist_page \<Rightarrow> string \<Rightarrow> new_status \<Rightarrow> string option" where
  "note_to_save pg sessionId newStatus =
     (if newStatus = NewCompleted then
        (case map_of (sessionNotes pg) sessionId of
           None \<Rightarrow> None
         | Some content \<Rightarrow> if content = [] then None else Some content)
      else None)"

definition status_update_failed :: "therapist_page \<Rightarrow> store \<Rightarrow> therapist_page result" where
  "status_update_failed pg st =
     \<lparr>page = pg\<lparr>updating := None\<rparr>, db = st,
      alerts = [''Failed to update session status''], timers = [], provider_calls = 0\<rparr>"

definition updateSessionStatus ::
  "user \<Rightarrow> therapist_page \<Rightarrow> string \<Rightarrow> new_status \<Rightarrow> int \<Rightarrow> string \<Rightarrow> store \<Rightarrow>
     therapist_page result" where
  "updateSessionStatus u pg sessionId newStatus now newId st =
     (let session = map_of (t_sessions pg) sessionId in
      case updateDoc sessionId (\<lambda>d. d\<lparr>status := status_of newStatus, updatedAt := Some now\<rparr>)
             (sessions st) of
        Inl e \<Rightarrow> status_update_failed pg st
      | Inr ss \<Rightarrow>
          let st1 = st\<lparr>sessions := ss\<rparr>;
              st2 = (if newStatus = NewCancelled then
                       (case session of
                          None \<Rightarrow> st1
                        | Some s \<Rightarrow>
                            (case slotId s of
                               None \<Rightarrow> st1
                             | Some slotKey \<Rightarrow>
                                 if slotKey = [] then st1 else make_slot_available slotKey st1))
                     else st1);
              pg1 = pg\<lparr>t_sessions :=
                         patch sessionId (\<lambda>s. s\<lparr>status := status_of newStatus\<rparr>)
                           (t_sessions pg)\<rparr>
          in (case note_to_save pg sessionId newStatus of
                None \<Rightarrow>
                  \<lparr>page = pg1\<lparr>updating := None\<rparr>, db = st2, alerts = [], timers = [],
                   provider_calls = 0\<rparr>
              | Some content \<Rightarrow>
                  (case save_session_note u pg sessionId content now newId st2 of
                     Inl e \<Rightarrow> status_update_failed pg1 st2
                   | Inr st3 \<Rightarrow>
                       \<lparr>page = pg1\<lparr>updating := None\<rparr>, db = st3, alerts = [], timers = [],
                        provider_calls = 0\<rparr>)))"

definition start_call_failed :: "therapist_page \<Rightarrow> store \<Rightarrow> therapist_page result" where
  "start_call_failed pg st =
     \<lparr>page = pg\<lparr>videoCallLoading := None\<rparr>, db = st,
      alerts = [''Failed to start video call. Please try again.''], timers = [],
      provider_calls = 1\<rparr>"

definition activate_call :: "string \<Rightarrow> int \<Rightarrow> session \<Rightarrow> session" where
  "activate_call m now d =
     d\<lparr>videoCallStarted := Some now, videoCallStatus := Some CallActive,
       videoCallRoomId := Some m, meetingId := Some m\<rparr>"

definition startVideoCall ::
  "therapist_page \<Rightarrow> string \<Rightarrow> string \<Rightarrow> string \<Rightarrow> provider_reply \<Rightarrow> int \<Rightarrow> store \<Rightarrow>
     therapist_page result" where
  "startVideoCall pg sessionId patId patName reply now st =
     (case checked_meeting reply of
        Inl e \<Rightarrow> start_call_failed pg st
      | Inr m \<Rightarrow>
          (case updateDoc sessionId (activate_call m now) (sessions st) of
             Inl e \<Rightarrow> start_call_failed pg st
           | Inr ss \<Rightarrow>
               \<lparr>page = pg\<lparr>t_sessions :=
                           patch sessionId
                             (\<lambda>s. s\<lparr>videoCallStatus := Some CallActive,
                                    videoCallRoomId := Some m, meetingId := Some m\<rparr>)
                             (t_sessions pg),
                         activeVideoCall :=
                           Some \<lparr>call_sessionId = sessionId, call_peerName = patName,
                                 call_peerId = patId, call_meetingId = Some m\<rparr>,
                         videoCallLoading := None\<rparr>,
                db = st\<lparr>sessions := ss\<rparr>, alerts = [], timers = [], provider_calls = 1\<rparr>))"

definition endVideoCall :: "therapist_page \<Rightarrow> int \<Rightarrow> store \<Rightarrow> therapist_page result" where
  "endVideoCall pg now st =
     (case activeVideoCall pg of
        None \<Rightarrow> unchanged pg st
      | Some c \<Rightarrow>
          (case updateDoc (call_sessionId c)
                  (\<lambda>d. d\<lparr>videoCallEnded := Some now, videoCallStatus := Some CallEnded\<rparr>)
                  (sessions st) of
             Inl e \<Rightarrow>
               \<lparr>page = pg\<lparr>videoCallLoading := None\<rparr>, db = st,
                alerts = [''Failed to end video call properly.''], timers = [],
                provider_calls = 0\<rparr>
           | Inr ss \<Rightarrow>
               \<lparr>page = pg\<lparr>activeVideoCall := None, videoCallLoading := None\<rparr>,
                db = st\<lparr>sessions := ss\<rparr>, alerts = [], timers = [], provider_calls = 0\<rparr>))"

text \<open>The timer that \<^verbatim>\<open>respondToVideoCallRequest\<close> sets runs \<^verbatim>\<open>startVideoCall\<close>.\<close>

fun run_timer ::
  "timer \<Rightarrow> therapist_page \<Rightarrow> provider_reply \<Rightarrow> int \<Rightarrow> store \<Rightarrow> therapist_page result" where
  "run_timer (StartVideoCall sessionId patId patName) pg reply now st =
     startVideoCall pg sessionId patId patName reply now st"
| "run_timer LoadSlots pg reply now st = unchanged pg st"

text \<open>The buttons of one session card that can be clicked (the call component drawn over
  the page is a control of the page, not of a card; it follows below). Cards are drawn
  from the page's list: \<^verbatim>\<open>pendingSessions\<close> get "Accept Booking" and "Decline", \<^verbatim>\<open>upcomingSessions\<close>
  (confirmed) get the call buttons and "Mark Complete", \<^verbatim>\<open>pastSessions\<close> get none. A
  button with \<^verbatim>\<open>disabled\<close> true is left out.\<close>

datatype therapist_action =
  AcceptBooking | DeclineBooking | AcceptCall | DeclineCall | StartCall | EndCall | MarkComplete

definition request_is_pending :: "session \<Rightarrow> bool" where
  "request_is_pending s =
     (case videoCallRequest s of None \<Rightarrow> False | Some r \<Rightarrow> req_status r = ReqPending)"

definition call_shown_active :: "therapist_page \<Rightarrow> string \<Rightarrow> bool" where
  "call_shown_active pg k =
     (case activeVideoCall pg of None \<Rightarrow> False | Some c \<Rightarrow> call_sessionId c = k)"

definition therapist_controls :: "therapist_page \<Rightarrow> string \<times> session \<Rightarrow> therapist_action list" where
  "therapist_controls pg ks =
     (let k = fst ks; s = snd ks in
      if status s = Pending then
        (if updating pg = Some k then [] else [AcceptBooking, DeclineBooking])
      else if status s = Confirmed then
        (if request_is_pending s \<and> videoCallLoading pg \<noteq> Some k
         then [AcceptCall, DeclineCall] else []) @
        (if call_shown_active pg k then
           (if videoCallLoading pg = Some k then [] else [EndCall])
         else
           (if videoCallLoading pg = Some k \<or> updating pg = Some k \<or> request_is_pending s
            then [] else [StartCall])) @
        (if updating pg = Some k \<or> videoCallLoading pg = Some k then [] else [MarkComplete])
      else [])"

text \<open>A click on a button of a card: nothing happens unless the card is on the page and
  the button is there to be clicked. \<open>shownName\<close> is the patient's name as the card
  shows it.\<close>

fun perform ::
  "therapist_action \<Rightarrow> user \<Rightarrow> therapist_page \<Rightarrow> string \<times> session \<Rightarrow> string \<Rightarrow>
     provider_reply \<Rightarrow> int \<Rightarrow> string \<Rightarrow> store \<Rightarrow> therapist_page result" where
  "perform AcceptBooking u pg ks shownName reply now newId st =
     updateSessionStatus u pg (fst ks) NewConfirmed now newId st"
| "perform DeclineBooking u pg ks shownName reply now newId st =
     updateSessionStatus u pg (fst ks) NewCancelled now newId st"
| "perform MarkComplete u pg ks shownName reply now newId st =
     updateSessionStatus u pg (fst ks) NewCompleted now newId st"
| "perform AcceptCall u pg ks shownName reply now newId st =
     respondToVideoCallRequest pg (fst ks) Accepted (patientId (snd ks)) shownName now st"
| "perform DeclineCall u pg ks shownName reply now newId st =
     respondToVideoCallRequest pg (fst ks) Declined (patientId (snd ks)) [] now st"
| "perform StartCall u pg ks shownName reply now newId st =
     startVideoCall pg (fst ks) (patientId (snd ks)) shownName reply now st"
| "perform EndCall u pg ks shownName reply now newId st = endVideoCall pg now st"

definition click ::
  "therapist_action \<Rightarrow> user \<Rightarrow> therapist_page \<Rightarrow> string \<times> session \<Rightarrow> string \<Rightarrow>
     provider_reply \<Rightarrow> int \<Rightarrow> string \<Rightarrow> store \<Rightarrow> therapist_page result" where
  "click a u pg ks shownName reply now newId st =
     (if ks \<in> set (t_sessions pg) \<and> a \<in> set (therapist_controls pg ks)
      then perform a u pg ks shownName reply now newId st
      else unchanged pg st)"

text \<open>Below the cards the page draws the call component over the whole window whenever
  \<^verbatim>\<open>activeVideoCall\<close> is set, whatever the status of the session:
  \<^verbatim>\<open>{activeVideoCall && (<VideoSDKCall ... onCallEnd={endVideoCall} />)}\<close>. Its hang-up
  button and its "Go Back" buttons (components/VideoSDKCall.tsx) all run \<^verbatim>\<open>onCallEnd\<close>,
  that is \<^verbatim>\<open>endVideoCall\<close>. The controls of the whole page are the buttons of its cards
  and this one.\<close>

datatype page_control = CardButton "string \<times> session" therapist_action | LeaveCall

definition therapist_page_controls :: "therapist_page \<Rightarrow> page_control list" where
  "therapist_page_controls pg =
     concat (map (\<lambda>ks. map (CardButton ks) (therapist_controls pg ks)) (t_sessions pg)) @
     (case activeVideoCall pg of None \<Rightarrow> [] | Some c \<Rightarrow> [LeaveCall])"

definition click_page ::
  "page_control \<Rightarrow> user \<Rightarrow> therapist_page \<Rightarrow> string \<Rightarrow> provider_reply \<Rightarrow> int \<Rightarrow> string \<Rightarrow>
     store \<Rightarrow> therapist_page result" where
  "click_page c u pg shownName reply now newId st =
     (if c \<in> set (therapist_page_controls pg) then
        (case c of
           CardButton ks a \<Rightarrow> perform a u pg ks shownName reply now newId st
         | LeaveCall \<Rightarrow> endVideoCall pg now st)
      else unchanged pg st)"

section \<open>The older sessions page (unnamed/part_009, first file)\<close>

text \<open>The same page without calls; its \<^verbatim>\<open>updateSessionStatus\<close> writes the status and,
  on completion, the note.\<close>

definition updateSessionStatus_part009 ::
  "user \<Rightarrow> therapist_page \<Rightarrow> string \<Rightarrow> new_status \<Rightarrow> int \<Rightarrow> string \<Rightarrow> store \<Rightarrow>
     therapist_page result" where
  "updateSessionStatus_part009 u pg sessionId newStatus now newId st =
     (case updateDoc sessionId (\<lambda>d. d\<lparr>status := status_of newStatus, updatedAt := Some now\<rparr>)
             (sessions st) of
        Inl e \<Rightarrow> status_update_failed pg st
      | Inr ss \<Rightarrow>
          let st1 = st\<lparr>sessions := ss\<rparr>;
              pg1 = pg\<lparr>t_sessions :=
                         patch sessionId (\<lambda>s. s\<lparr>status := status_of newStatus\<rparr>)
                           (t_sessions pg)\<rparr>
          in (case note_to_save pg sessionId newStatus of
                None \<Rightarrow>
                  \<lparr>page = pg1\<lparr>updating := None\<rparr>, db = st1, alerts = [], timers = [],
                   provider_calls = 0\<rparr>
              | Some content \<Rightarrow>
                  (case save_session_note u pg sessionId content now newId st1 of
                     Inl e \<Rightarrow> status_update_failed pg1 st1
                   | Inr st2 \<Rightarrow>
                       \<lparr>page = pg1\<lparr>updating := None\<rparr>, db = st2, alerts = [], timers = [],
                        provider_calls = 0\<rparr>)))"

section \<open>The therapist's slots (unnamed/part_009: the Slots page and useTherapistSlots)\<close>

record slots_page =
  slots :: "slot collection"

definition removeSlot :: "slots_page \<Rightarrow> string \<Rightarrow> store \<Rightarrow> slots_page result" where
  "removeSlot pg slotKey st =
     \<lparr>page = pg\<lparr>slots := filter (\<lambda>s. fst s \<noteq> slotKey) (slots pg)\<rparr>,
      db = st\<lparr>therapistSlots := deleteDoc slotKey (therapistSlots st)\<rparr>,
      alerts = [], timers = [], provider_calls = 0\<rparr>"

text \<open>\<^verbatim>\<open>handleRemoveSlot\<close> asks for confirmation first.\<close>

definition handleRemoveSlot :: "slots_page \<Rightarrow> string \<Rightarrow> bool \<Rightarrow> store \<Rightarrow> slots_page result" where
  "handleRemoveSlot pg slotKey confirmed st =
     (if confirmed then removeSlot pg slotKey st else unchanged pg st)"

text \<open>The remove button of a slot row: \<^verbatim>\<open>disabled={slot.isBooked}\<close>.\<close>

definition remove_button_enabled :: "string \<times> slot \<Rightarrow> bool" where
  "remove_button_enabled ks = (\<not> isBooked (snd ks))"

definition click_remove ::
  "slots_page \<Rightarrow> string \<times> slot \<Rightarrow> bool \<Rightarrow> store \<Rightarrow> slots_page result" where
  "click_remove pg ks confirmed st =
     (if ks \<in> set (slots pg) \<and> remove_button_enabled ks
      then handleRemoveSlot pg (fst ks) confirmed st
      else unchanged pg st)"

section \<open>The patient's sessions page (therapy-main: pages/patient/Sessions.tsx)\<close>

record patient_page =
  p_sessions :: "session collection"
  p_activeVideoCall :: "active_call option"
  requestingVideoCall :: "string option"
  roomIdInput :: "(string \<times> string) list"

definition requestVideoCall ::
  "user \<Rightarrow> patient_page \<Rightarrow> string \<Rightarrow> string \<Rightarrow> string \<Rightarrow> int \<Rightarrow> store \<Rightarrow>
     patient_page result" where
  "requestVideoCall u pg sessionId thId thName now st =
     (let req = \<lparr>req_status = ReqPending, requestedAt = Some now, respondedAt = None,
                 requestedBy = Some (user_id u)\<rparr> in
      case updateDoc sessionId (\<lambda>d. d\<lparr>videoCallRequest := Some req\<rparr>) (sessions st) of
        Inl e \<Rightarrow>
          \<lparr>page = pg\<lparr>requestingVideoCall := None\<rparr>, db = st,
           alerts = [''Failed to send video call request. Please try again.''],
           timers = [], provider_calls = 0\<rparr>
      | Inr ss \<Rightarrow>
          \<lparr>page = pg\<lparr>p_sessions :=
                      patch sessionId (\<lambda>s. s\<lparr>videoCallRequest := Some req\<rparr>)
                        (p_sessions pg),
                    requestingVideoCall := None\<rparr>,
           db = st\<lparr>sessions := ss\<rparr>,
           alerts = [''Video call request sent to '' @ thName @
                     ''! They will receive a notification and can accept or decline your request.''],
           timers = [], provider_calls = 0\<rparr>)"

text \<open>The cooldown check of the page, made when the card is drawn at time \<open>now\<close>:
  \<^verbatim>\<open>fiveMinutesAgo = new Date(Date.now() - 5 * 60 * 1000)\<close>,
  \<^verbatim>\<open>canRequestAgain = requestedAt < fiveMinutesAgo\<close>. A request without a time gives an
  invalid date, and no comparison with it holds.\<close>

definition canRequestAgain :: "int \<Rightarrow> video_call_request \<Rightarrow> bool" where
  "canRequestAgain now r =
     (case requestedAt r of None \<Rightarrow> False | Some t \<Rightarrow> t < now - 5 * 60 * 1000)"

text \<open>\<^verbatim>\<open>session.meetingId || session.videoCallRoomId\<close>\<close>

definition room_shown :: "session \<Rightarrow> string option" where
  "room_shown s =
     (case meetingId s of
        Some m \<Rightarrow> if m \<noteq> [] then Some m else
                    (case videoCallRoomId s of
                       Some r \<Rightarrow> if r \<noteq> [] then Some r else None | None \<Rightarrow> None)
      | None \<Rightarrow> (case videoCallRoomId s of
                    Some r \<Rightarrow> if r \<noteq> [] then Some r else None | None \<Rightarrow> None))"

text \<open>What the card of a session offers for calls: a request button (with whether it can
  be clicked), the disabled "Awaiting Therapist" button, a join button for a known room,
  the room id entry, the disabled "Awaiting Therapist Confirmation" button of a pending
  session, or nothing (past sessions).\<close>

datatype patient_control =
    RequestButton bool
  | AwaitingTherapist
  | JoinButton string
  | RoomIdEntry
  | AwaitingConfirmation
  | NoCallControl

definition join_control :: "session \<Rightarrow> patient_control" where
  "join_control s = (case room_shown s of Some m \<Rightarrow> JoinButton m | None \<Rightarrow> RoomIdEntry)"

definition call_control :: "patient_page \<Rightarrow> int \<Rightarrow> string \<times> session \<Rightarrow> patient_control" where
  "call_control pg now ks =
     (let k = fst ks; s = snd ks in
      if status s = Confirmed then
        (case videoCallRequest s of
           None \<Rightarrow> RequestButton (requestingVideoCall pg \<noteq> Some k)
         | Some r \<Rightarrow>
             if req_status r = ReqPending then
               (if canRequestAgain now r
                then RequestButton (requestingVideoCall pg \<noteq> Some k)
                else AwaitingTherapist)
             else if req_status r = ReqAccepted \<and> videoCallStatus s = Some CallActive
               then join_control s
             else if req_status r = ReqDeclined then RequestButton True
             else if req_status r = ReqAccepted then join_control s
             else RequestButton True)
      else if status s = Pending then AwaitingConfirmation
      else NoCallControl)"


section \<open>Writes of two clients, interleaved\<close>

text \<open>Each write of a booking is one atomic write of the store; two bookings that run at
  the same time issue their writes in some merged order. A write is named by who issues
  it: the \<^verbatim>\<open>addDoc\<close> of the session record, or the \<^verbatim>\<open>updateDoc\<close> of the slot.\<close>

datatype store_write =
    AddSession user therapist "string \<times> slot" int string
  | BookSlot user string int

fun apply_write :: "store_write \<Rightarrow> store \<Rightarrow> store_error + store" where
  "apply_write (AddSession u th sl now newId) st = create_session_record u th sl now newId st"
| "apply_write (BookSlot u slotKey now) st = mark_slot_booked u slotKey now st"

definition booking_writes ::
  "user \<Rightarrow> therapist \<Rightarrow> string \<times> slot \<Rightarrow> int \<Rightarrow> string \<Rightarrow> store_write list" where
  "booking_writes u th sl now newId = [AddSession u th sl now newId, BookSlot u (fst sl) now]"

fun run_writes :: "store_write list \<Rightarrow> store \<Rightarrow> store_error + store" where
  "run_writes [] st = Inr st"
| "run_writes (w # ws) st =
     (case apply_write w st of Inl e \<Rightarrow> Inl e | Inr st' \<Rightarrow> run_writes ws st')"


section \<open>The writers of the store\<close>

text \<open>Every function of the pages that writes to the store, called with any arguments
  from any page state. \<^verbatim>\<open>bookSession\<close> of the patient dashboard (therapy-main:
  pages/patient/Dashboard.tsx) issues the same two writes as the one above.\<close>

inductive step :: "store \<Rightarrow> store \<Rightarrow> bool" where
  book: "step st (db (bookSession u tp sl now newId st))"
| update_status: "step st (db (updateSessionStatus u pg k ns now newId st))"
| update_status_part009: "step st (db (updateSessionStatus_part009 u pg k ns now newId st))"
| request: "step st (db (requestVideoCall u pp k thId thName now st))"
| respond: "step st (db (respondToVideoCallRequest pg k resp patId patName now st))"
| start_call: "step st (db (startVideoCall pg k patId patName reply now st))"
| end_call: "step st (db (endVideoCall pg now st))"
| remove_slot: "step st (db (removeSlot sp k st))"

text \<open>The part of the call invariant that concerns the room: an active call has a
  room, stored under both names.\<close>

definition active_has_room :: "session \<Rightarrow> bool" where
  "active_has_room s =
     (videoCallStatus s = Some CallActive \<longrightarrow>
        videoCallRoomId s \<noteq> None \<and> videoCallRoomId s \<noteq> Some [] \<and>
        meetingId s = videoCallRoomId s)"

definition request_accepted :: "session \<Rightarrow> bool" where
  "request_accepted s =
     (case videoCallRequest s of None \<Rightarrow> False | Some r \<Rightarrow> req_status r = ReqAccepted)"

section \<open>Example data\<close>

text \<open>The scenario of the specification: a therapist opens the slot 10:00 - 11:00 on
  2025-06-01; two patients look at it.\<close>

definition alice :: user where
  "alice = \<lparr>user_id = ''alice'', user_name = ''Alice''\<rparr>"

definition bob :: user where
  "bob = \<lparr>user_id = ''bob'', user_name = ''Bob''\<rparr>"

definition lee :: user where
  "lee = \<lparr>user_id = ''lee'', user_name = ''Dr Lee''\<rparr>"

definition dr_lee :: therapist where
  "dr_lee = \<lparr>therapist_id = ''lee'', therapist_name = ''Dr Lee''\<rparr>"

definition open_slot :: slot where
  "open_slot =
     \<lparr>slot_therapistId = ''lee'', slot_date = ''2025-06-01'', timeRange = ''10:00 - 11:00'',
      isBooked = False, bookedBy = None, bookedAt = None\<rparr>"

definition clinic :: store where
  "clinic = \<lparr>sessions = [], therapistSlots = [(''slot1'', open_slot)], sessionNotesDocs = []\<rparr>"

definition browsing :: therapists_page where
  "browsing =
     \<lparr>selectedTherapist = Some dr_lee, selectedDate = Some ''2025-06-01'',
      availableSlots = [], booking = False\<rparr>"

text \<open>The therapist's page showing the sessions \<open>ss\<close>, nothing in progress.\<close>

definition showing :: "session collection \<Rightarrow> therapist_page" where
  "showing ss =
     \<lparr>t_sessions = ss, sessionNotes = [], updating = None, activeVideoCall = None,
      videoCallLoading = None\<rparr>"


text \<open>Alice's session on the slot, as \<^verbatim>\<open>bookSession\<close> creates it, and the store that
  holds one session \<open>s\<close> on the booked slot.\<close>

definition booked :: session where
  "booked = new_session alice dr_lee (''slot1'', open_slot) 1"

definition taken_slot :: slot where
  "taken_slot = open_slot\<lparr>isBooked := True, bookedBy := Some ''alice'', bookedAt := Some 1\<rparr>"

definition clinic_with :: "session \<Rightarrow> store" where
  "clinic_with s =
     \<lparr>sessions = [(''s1'', s)], therapistSlots = [(''slot1'', taken_slot)],
      sessionNotesDocs = []\<rparr>"

text \<open>The session confirmed, with a call request of Alice's sent at time \<open>t\<close> in state
  \<open>q\<close>; and the same with the call running in room1.\<close>

definition asked :: "request_status \<Rightarrow> int \<Rightarrow> session" where
  "asked q t =
     booked\<lparr>status := Confirmed,
            videoCallRequest :=
              Some \<lparr>req_status = q, requestedAt = Some t, respondedAt = None,
                    requestedBy = Some ''alice''\<rparr>\<rparr>"

definition in_call :: session where
  "in_call =
     (asked ReqAccepted 0)\<lparr>videoCallStatus := Some CallActive, videoCallRoomId := Some ''room1'',
                            meetingId := Some ''room1'', videoCallStarted := Some 5\<rparr>"

text \<open>A call without a request: Alice books the slot, the therapist accepts the booking
  and then clicks "Start Video Call" on the confirmed session.\<close>

definition after_booking :: store where
  "after_booking =
     db (bookSession alice (loadSlots browsing clinic) (''slot1'', open_slot) 1 ''s1'' clinic)"

definition after_confirm :: "therapist_page result" where
  "after_confirm =
     click AcceptBooking lee (showing (sessions after_booking)) (''s1'', booked) ''Alice''
       RequestFails 2 ''n1'' after_booking"

definition direct_call :: "therapist_page result" where
  "direct_call =
     click StartCall lee (page after_confirm) (''s1'', booked\<lparr>status := Confirmed\<rparr>) ''Alice''
       (Reply (Some ''room1'')) 3 ''n2'' (db after_confirm)"

text \<open>A call on a completed session: the therapist accepts Alice's request, marks the
  session complete before the timer of the acceptance runs, and then the timer runs.\<close>

definition after_accept :: "therapist_page result" where
  "after_accept =
     click AcceptCall lee (showing [(''s1'', asked ReqPending 0)]) (''s1'', asked ReqPending 0)
       ''Alice'' RequestFails 7 ''n1'' (clinic_with (asked ReqPending 0))"

definition after_complete :: "therapist_page result" where
  "after_complete =
     click MarkComplete lee (page after_accept)
       (''s1'', booked\<lparr>status := Confirmed,
          videoCallRequest :=
            Some \<lparr>req_status = ReqAccepted, requestedAt = Some 0, respondedAt = Some 7,
                  requestedBy = Some ''alice''\<rparr>\<rparr>)
       ''Alice'' RequestFails 8 ''n2'' (db after_accept)"

definition late_call :: "therapist_page result" where
  "late_call =
     run_timer (StartVideoCall ''s1'' ''alice'' ''Alice'') (page after_complete)
       (Reply (Some ''room1'')) 9 (db after_complete)"

text \<open>The call component of that page is then left: the call of the completed session
  is ended from the overlay.\<close>

definition late_leave :: "therapist_page result" where
  "late_leave = click_page LeaveCall lee (page late_call) ''Alice'' RequestFails 10 ''n3'' (db late_call)"

text \<open>An acceptance whose timer finds the provider failing.\<close>

definition failed_start :: "therapist_page result" where
  "failed_start =
     run_timer (StartVideoCall ''s1'' ''alice'' ''Alice'') (page after_accept) RequestFails 8
       (db after_accept)"

lemma map_of_patch:
  "map_of (patch k f col) k' =
     (if k' = k then map_option f (map_of col k') else map_of col k')"
  unfolding patch_def by (induction col) auto

lemma keys_patch: "map fst (patch k f col) = map fst col"
  by (auto simp: patch_def)

lemma patch_missing: "map_of col k = None \<Longrightarrow> patch k f col = col"
  unfolding patch_def by (induction col) (auto split: if_splits)

lemma updateDoc_patch:
  "(case updateDoc k f col of Inl e \<Rightarrow> col | Inr col' \<Rightarrow> col') = patch k f col"
  by (simp add: updateDoc_def patch_missing split: option.splits)

lemma map_of_updateDoc:
  "updateDoc k f col = Inr col' \<Longrightarrow>
   map_of col' k' = (if k' = k then map_option f (map_of col k') else map_of col k')"
  unfolding updateDoc_def using map_of_patch [of k f col k']
  by (auto split: option.splits)

lemma updateDoc_found:
  "map_of col k = Some d \<Longrightarrow> \<exists>col'. updateDoc k f col = Inr col'"
  by (simp add: updateDoc_def)

lemma updateDoc_missing:
  "map_of col k = None \<Longrightarrow> updateDoc k f col = Inl NotFound"
  by (simp add: updateDoc_def)

lemma map_of_addDoc:
  "map_of (addDoc n d col) k =
     (case map_of col k of Some x \<Rightarrow> Some x | None \<Rightarrow> if k = n then Some d else None)"
  by (auto simp: addDoc_def map_add_def split: option.splits)

lemma keys_updateDoc:
  "updateDoc k f col = Inr col' \<Longrightarrow> map fst col' = map fst col"
  by (auto simp: updateDoc_def keys_patch split: option.splits)


section \<open>What each writer does to the sessions\<close>

lemma sessions_make_slot_available [simp]:
  "sessions (make_slot_available k st) = sessions st"
  by (simp add: make_slot_available_def split: sum.splits)

lemma sessions_save_session_note:
  "save_session_note u pg k content now newId st = Inr st' \<Longrightarrow> sessions st' = sessions st"
  by (auto simp: save_session_note_def split: option.splits)

lemma slots_save_session_note:
  "save_session_note u pg k content now newId st = Inr st' \<Longrightarrow>
     therapistSlots st' = therapistSlots st"
  by (auto simp: save_session_note_def split: option.splits)

lemma sessions_updateSessionStatus:
  "sessions (db (updateSessionStatus u pg k ns now newId st)) =
     patch k (\<lambda>d. d\<lparr>status := status_of ns, updatedAt := Some now\<rparr>) (sessions st)"
proof (cases "map_of (sessions st) k")
  case None
  then show ?thesis
    by (simp add: updateSessionStatus_def updateDoc_def status_update_failed_def patch_missing)
next
  case (Some d)
  then show ?thesis
    by (auto simp: updateSessionStatus_def updateDoc_def status_update_failed_def Let_def
        dest: sessions_save_session_note split: option.splits sum.splits)
qed

lemma sessions_updateSessionStatus_part009:
  "sessions (db (updateSessionStatus_part009 u pg k ns now newId st)) =
     patch k (\<lambda>d. d\<lparr>status := status_of ns, updatedAt := Some now\<rparr>) (sessions st)"
proof (cases "map_of (sessions st) k")
  case None
  then show ?thesis
    by (simp add: updateSessionStatus_part009_def updateDoc_def status_update_failed_def
        patch_missing)
next
  case (Some d)
  then show ?thesis
    by (auto simp: updateSessionStatus_part009_def updateDoc_def status_update_failed_def Let_def
        dest: sessions_save_session_note split: option.splits sum.splits)
qed

lemma sessions_requestVideoCall:
  "sessions (db (requestVideoCall u pp k thId thName now st)) =
     patch k (\<lambda>d. d\<lparr>videoCallRequest :=
                Some \<lparr>req_status = ReqPending, requestedAt = Some now, respondedAt = None,
                      requestedBy = Some (user_id u)\<rparr>\<rparr>) (sessions st)"
  by (simp add: requestVideoCall_def updateDoc_def patch_missing Let_def split: option.splits)

lemma sessions_respondToVideoCallRequest:
  "sessions (db (respondToVideoCallRequest pg k resp patId patName now st)) =
     patch k (\<lambda>d. d\<lparr>videoCallRequest :=
                Some (case videoCallRequest d of
                        None \<Rightarrow> \<lparr>req_status = request_status_of resp, requestedAt = None,
                                  respondedAt = Some now, requestedBy = None\<rparr>
                      | Some r \<Rightarrow> r\<lparr>req_status := request_status_of resp,
                                     respondedAt := Some now\<rparr>)\<rparr>) (sessions st)"
  by (simp add: respondToVideoCallRequest_def updateDoc_def patch_missing split: option.splits)

lemma sessions_startVideoCall:
  "sessions (db (startVideoCall pg k patId patName reply now st)) =
     (case checked_meeting reply of
        Inl e \<Rightarrow> sessions st
      | Inr m \<Rightarrow> patch k (activate_call m now) (sessions st))"
  by (simp add: startVideoCall_def updateDoc_def patch_missing start_call_failed_def
      split: option.splits sum.splits)

lemma sessions_endVideoCall:
  "sessions (db (endVideoCall pg now st)) =
     (case activeVideoCall pg of
        None \<Rightarrow> sessions st
      | Some c \<Rightarrow>
          patch (call_sessionId c)
            (\<lambda>d. d\<lparr>videoCallEnded := Some now, videoCallStatus := Some CallEnded\<rparr>)
            (sessions st))"
  by (simp add: endVideoCall_def updateDoc_def patch_missing unchanged_def
      split: option.splits sum.splits)

lemma sessions_removeSlot [simp]: "sessions (db (removeSlot sp k st)) = sessions st"
  by (simp add: removeSlot_def)

lemma sessions_mark_slot_booked:
  "mark_slot_booked u k now st = Inr st' \<Longrightarrow> sessions st' = sessions st"
  by (auto simp: mark_slot_booked_def split: sum.splits)

lemma sessions_bookSession:
  "sessions (db (bookSession u tp sl now newId st)) = sessions st \<or>
   (\<exists>th. sessions (db (bookSession u tp sl now newId st)) =
      addDoc newId (new_session u th sl now) (sessions st))"
  by (cases "selectedTherapist tp")
     (auto simp: bookSession_def unchanged_def create_session_record_def
        dest!: sessions_mark_slot_booked split: sum.splits)

section \<open>Booking\<close>

lemma mark_slot_booked_found:
  assumes "map_of (therapistSlots st) k = Some d"
  shows "\<exists>st'. mark_slot_booked u k now st = Inr st' \<and> sessions st' = sessions st \<and>
           sessionNotesDocs st' = sessionNotesDocs st \<and>
           map fst (therapistSlots st') = map fst (therapistSlots st) \<and>
           (\<forall>k'. map_of (therapistSlots st') k' =
              (if k' = k
               then Some (d\<lparr>isBooked := True, bookedBy := Some (user_id u), bookedAt := Some now\<rparr>)
               else map_of (therapistSlots st) k'))"
proof -
  let ?f = "\<lambda>d. d\<lparr>isBooked := True, bookedBy := Some (user_id u), bookedAt := Some now\<rparr>"
  obtain col' where c: "updateDoc k ?f (therapistSlots st) = Inr col'"
    using updateDoc_found [OF assms] by blast
  have "\<forall>k'. map_of col' k' = (if k' = k then Some (?f d) else map_of (therapistSlots st) k')"
    using map_of_updateDoc [OF c] assms by simp
  moreover have "map fst col' = map fst (therapistSlots st)"
    using keys_updateDoc [OF c] .
  ultimately show ?thesis
    using c by (simp add: mark_slot_booked_def)
qed

text \<open>
  C1 (amended). A booking attempt by a signed-in patient, with a therapist selected and no
  booking in progress, on a slot whose document exists, succeeds whatever the slot's
  \<^verbatim>\<open>isBooked\<close> flag in the store says: a session with status pending is created and the
  slot is set to booked by this patient. \<^verbatim>\<open>bookSession\<close> has no conflict outcome. What
  keeps booked slots away from it is \<^verbatim>\<open>loadSlots\<close>, which lists only the slots that
  were not booked when it read them (here for any selected date).
\<close>

theorem bookSession_ignores_booked_flag:
  assumes "selectedTherapist pg = Some th" and "user_id u \<noteq> []" and "\<not> booking pg"
    and "map_of (therapistSlots st) (fst sl) = Some d"
    and "map_of (sessions st) newId = None"
  shows "alerts (bookSession u pg sl now newId st) =
           [''Session booked successfully! Waiting for therapist confirmation.''] \<and>
         map_of (sessions (db (bookSession u pg sl now newId st))) newId =
           Some (new_session u th sl now) \<and>
         status (new_session u th sl now) = Pending \<and>
         slotId (new_session u th sl now) = Some (fst sl) \<and>
         map_of (therapistSlots (db (bookSession u pg sl now newId st))) (fst sl) =
           Some (d\<lparr>isBooked := True, bookedBy := Some (user_id u), bookedAt := Some now\<rparr>) \<and>
         list_all (\<lambda>ks. \<not> isBooked (snd ks))
           (availableSlots (loadSlots (pg\<lparr>selectedDate := Some dateStr\<rparr>) st))"
proof -
  let ?st1 = "st\<lparr>sessions := addDoc newId (new_session u th sl now) (sessions st)\<rparr>"
  have slot1: "map_of (therapistSlots ?st1) (fst sl) = Some d"
    using assms(4) by simp
  obtain st2 where m: "mark_slot_booked u (fst sl) now ?st1 = Inr st2"
    and s2: "sessions st2 = sessions ?st1"
    and t2: "\<forall>k'. map_of (therapistSlots st2) k' =
              (if k' = fst sl
               then Some (d\<lparr>isBooked := True, bookedBy := Some (user_id u), bookedAt := Some now\<rparr>)
               else map_of (therapistSlots ?st1) k')"
    using mark_slot_booked_found [OF slot1, of u now] by blast
  have b: "bookSession u pg sl now newId st =
        \<lparr>page = pg\<lparr>availableSlots := filter (\<lambda>s. fst s \<noteq> fst sl) (availableSlots pg),
                   selectedTherapist := None, booking := False\<rparr>,
         db = st2,
         alerts = [''Session booked successfully! Waiting for therapist confirmation.''],
         timers = [(1000, LoadSlots)], provider_calls = 0\<rparr>"
    using assms(1-3) m by (simp add: bookSession_def create_session_record_def)
  have new: "map_of (sessions st2) newId = Some (new_session u th sl now)"
    using s2 assms(5) by (simp add: map_of_addDoc)
  have listed: "list_all (\<lambda>ks. \<not> isBooked (snd ks))
                  (availableSlots (loadSlots (pg\<lparr>selectedDate := Some dateStr\<rparr>) st))"
    using assms(1) by (auto simp: loadSlots_def list_all_iff)
  show ?thesis
    using b new t2 listed by (simp add: new_session_def)
qed

theorem bookSession_ignores_booked_flag_witness:
  "alerts (bookSession bob browsing (''slot1'', open_slot) 7 ''s2''
            (clinic\<lparr>therapistSlots :=
               [(''slot1'', open_slot\<lparr>isBooked := True, bookedBy := Some ''alice''\<rparr>)]\<rparr>)) =
     [''Session booked successfully! Waiting for therapist confirmation.''] \<and>
   map_of (therapistSlots (db (bookSession bob browsing (''slot1'', open_slot) 7 ''s2''
            (clinic\<lparr>therapistSlots :=
               [(''slot1'', open_slot\<lparr>isBooked := True, bookedBy := Some ''alice''\<rparr>)]\<rparr>))))
       ''slot1'' =
     Some (open_slot\<lparr>isBooked := True, bookedBy := Some ''bob'', bookedAt := Some 7\<rparr>)"
proof -
  let ?st = "clinic\<lparr>therapistSlots :=
               [(''slot1'', open_slot\<lparr>isBooked := True, bookedBy := Some ''alice''\<rparr>)]\<rparr>"
  have h1: "selectedTherapist browsing = Some dr_lee" by (simp add: browsing_def)
  have h2: "user_id bob \<noteq> []" by (simp add: bob_def)
  have h3: "\<not> booking browsing" by (simp add: browsing_def)
  have h4: "map_of (therapistSlots ?st) (fst (''slot1'', open_slot)) =
              Some (open_slot\<lparr>isBooked := True, bookedBy := Some ''alice''\<rparr>)" by simp
  have h5: "map_of (sessions ?st) ''s2'' = None" by (simp add: clinic_def)
  show ?thesis
    using bookSession_ignores_booked_flag [OF h1 h2 h3 h4 h5, of 7]
    by (simp add: bob_def)
qed

text \<open>C1 as stated fails: the slot is already booked by Alice in the store, Bob's page
  still holds it as free, and his booking goes through: no failure, a second session,
  and the slot now booked by Bob.\<close>

theorem bookSession_on_booked_slot_counterexample:
  "map_of (therapistSlots (clinic\<lparr>therapistSlots :=
       [(''slot1'', open_slot\<lparr>isBooked := True, bookedBy := Some ''alice''\<rparr>)]\<rparr>)) ''slot1'' =
     Some (open_slot\<lparr>isBooked := True, bookedBy := Some ''alice''\<rparr>) \<and>
   alerts (bookSession bob browsing (''slot1'', open_slot) 7 ''s2''
          (clinic\<lparr>therapistSlots :=
             [(''slot1'', open_slot\<lparr>isBooked := True, bookedBy := Some ''alice''\<rparr>)]\<rparr>)) =
     [''Session booked successfully! Waiting for therapist confirmation.''] \<and>
   sessions (db (bookSession bob browsing (''slot1'', open_slot) 7 ''s2''
          (clinic\<lparr>therapistSlots :=
             [(''slot1'', open_slot\<lparr>isBooked := True, bookedBy := Some ''alice''\<rparr>)]\<rparr>))) =
     [(''s2'', new_session bob dr_lee (''slot1'', open_slot) 7)] \<and>
   therapistSlots (db (bookSession bob browsing (''slot1'', open_slot) 7 ''s2''
          (clinic\<lparr>therapistSlots :=
             [(''slot1'', open_slot\<lparr>isBooked := True, bookedBy := Some ''alice''\<rparr>)]\<rparr>))) =
     [(''slot1'', open_slot\<lparr>isBooked := True, bookedBy := Some ''bob'', bookedAt := Some 7\<rparr>)]"
  by (simp add: bookSession_def create_session_record_def mark_slot_booked_def updateDoc_def
      patch_def addDoc_def browsing_def bob_def clinic_def)

section \<open>Two bookings of one slot\<close>

lemma create_session_record_effect:
  "create_session_record u th sl now n st =
     Inr (st\<lparr>sessions := addDoc n (new_session u th sl now) (sessions st)\<rparr>)"
  by (simp add: create_session_record_def)

lemma mark_slot_booked_effect:
  assumes "map_of (therapistSlots st) k = Some d"
  obtains st' where "mark_slot_booked u k now st = Inr st'"
    and "sessions st' = sessions st"
    and "map_of (therapistSlots st') k =
           Some (d\<lparr>isBooked := True, bookedBy := Some (user_id u), bookedAt := Some now\<rparr>)"
  using mark_slot_booked_found [OF assms, of u now] by auto

text \<open>A booking that gets past its guard is its two writes, run in order.\<close>

lemma bookSession_runs_booking_writes:
  assumes "selectedTherapist pg = Some th" and "user_id u \<noteq> []" and "\<not> booking pg"
    and "run_writes (booking_writes u th sl now newId) st = Inr st'"
  shows "db (bookSession u pg sl now newId st) = st'"
  using assms
  by (auto simp: bookSession_def booking_writes_def create_session_record_def
      split: sum.splits)







section \<open>The status of a session\<close>

lemma status_of_not_pending [simp]: "status_of ns \<noteq> Pending"
  by (cases ns) simp_all









section \<open>Giving the slot back\<close>

lemma slots_updateSessionStatus_part009:
  "therapistSlots (db (updateSessionStatus_part009 u pg k ns now newId st)) = therapistSlots st"
  by (auto simp: updateSessionStatus_part009_def status_update_failed_def Let_def
      dest: slots_save_session_note split: sum.splits option.splits)

lemma make_slot_available_found:
  "map_of (therapistSlots st) sk = Some d \<Longrightarrow>
   map_of (therapistSlots (make_slot_available sk st)) sk = Some (release_slot d)"
  by (simp add: make_slot_available_def updateDoc_def map_of_patch)

text \<open>The page of therapy-main gives the slot back when the therapist declines: the
  session is on the page with its slot, the session document and the slot document
  exist.\<close>

lemma updateSessionStatus_releases_slot:
  assumes "map_of (sessions st) k = Some s0" and "map_of (t_sessions pg) k = Some s"
    and "slotId s = Some sk" and "sk \<noteq> []" and "map_of (therapistSlots st) sk = Some d"
  shows "map_of (therapistSlots (db (updateSessionStatus u pg k NewCancelled now newId st))) sk =
           Some (release_slot d) \<and>
         isBooked (release_slot d) = False \<and> bookedBy (release_slot d) = None \<and>
         bookedAt (release_slot d) = None"
  using assms
  by (simp add: updateSessionStatus_def updateDoc_def note_to_save_def Let_def
      make_slot_available_found release_slot_def)

text \<open>
  C4. Declining a session that is bound to a slot has to give the slot back. The page of
  therapy-main does (\<open>updateSessionStatus_releases_slot\<close>); the older page of
  unnamed/part_009 does not: its \<^verbatim>\<open>updateSessionStatus\<close> never touches the slots.
  Here Alice's pending session on slot1 is declined there: the session is cancelled and
  the slot stays booked by Alice.
\<close>

theorem part009_decline_leaves_slot_booked:
  "slotId booked = Some ''slot1'' \<and>
   sessions (db (updateSessionStatus_part009 lee (showing [(''s1'', booked)]) ''s1'' NewCancelled
                  9 ''n1'' (clinic_with booked))) =
     [(''s1'', booked\<lparr>status := Cancelled, updatedAt := Some 9\<rparr>)] \<and>
   therapistSlots (db (updateSessionStatus_part009 lee (showing [(''s1'', booked)]) ''s1''
                  NewCancelled 9 ''n1'' (clinic_with booked))) =
     [(''slot1'', open_slot\<lparr>isBooked := True, bookedBy := Some ''alice'', bookedAt := Some 1\<rparr>)] \<and>
   therapistSlots (db (updateSessionStatus lee (showing [(''s1'', booked)]) ''s1''
                  NewCancelled 9 ''n1'' (clinic_with booked))) =
     [(''slot1'', open_slot\<lparr>isBooked := False, bookedBy := None, bookedAt := None\<rparr>)]"
  by (simp add: updateSessionStatus_part009_def updateSessionStatus_def updateDoc_def patch_def
      clinic_with_def showing_def note_to_save_def Let_def booked_def new_session_def
      taken_slot_def make_slot_available_def release_slot_def open_slot_def)

section \<open>Asking for a call\<close>

lemma requestVideoCall_writes_request:
  assumes "map_of (sessions st) k = Some d"
  shows "map_of (sessions (db (requestVideoCall u pg k thId thName now st))) k =
           Some (d\<lparr>videoCallRequest :=
                  Some \<lparr>req_status = ReqPending, requestedAt = Some now, respondedAt = None,
                        requestedBy = Some (user_id u)\<rparr>\<rparr>)"
  using assms by (simp add: sessions_requestVideoCall map_of_patch)




section \<open>Starting the call\<close>

lemma checked_meeting_ok [simp]: "m \<noteq> [] \<Longrightarrow> checked_meeting (Reply (Some m)) = Inr m"
  by (simp add: checked_meeting_def createMeeting_def)

lemma checked_meeting_fails:
  "reply = RequestFails \<or> reply = Reply None \<or> reply = Reply (Some []) \<Longrightarrow>
     \<exists>e. checked_meeting reply = Inl e"
  by (auto simp: checked_meeting_def createMeeting_def)

lemma provider_calls_startVideoCall:
  "provider_calls (startVideoCall pg k patId patName reply now st) = 1"
  by (simp add: startVideoCall_def start_call_failed_def split: sum.splits)

lemma startVideoCall_activates:
  assumes "map_of (sessions st) k = Some s" and "m \<noteq> []"
  shows "map_of (sessions (db (startVideoCall pg k patId patName (Reply (Some m)) now st))) k =
           Some (activate_call m now s)"
  using assms by (simp add: sessions_startVideoCall map_of_patch)

text \<open>
  C6 (amended). Activation is not idempotent. Every call of \<^verbatim>\<open>startVideoCall\<close>, also
  for a session whose call is already active with a stored room, sends a room request to
  the provider; when the provider returns a room id and the session document exists, the
  stored room (\<^verbatim>\<open>videoCallRoomId\<close> and \<^verbatim>\<open>meetingId\<close>) is overwritten with the new id,
  whatever it was. The one guard is on the page that started the call: while its
  \<^verbatim>\<open>activeVideoCall\<close> is this session, the card shows "End Call" and no "Start Video
  Call".
\<close>

theorem startVideoCall_always_asks_provider:
  assumes "map_of (sessions st) k = Some s" and "m \<noteq> []"
  shows "provider_calls (startVideoCall pg k patId patName reply now st) = 1 \<and>
         map_of (sessions (db (startVideoCall pg k patId patName (Reply (Some m)) now st))) k =
           Some (activate_call m now s) \<and>
         videoCallRoomId (activate_call m now s) = Some m \<and>
         meetingId (activate_call m now s) = Some m \<and>
         (call_shown_active pg k \<longrightarrow> StartCall \<notin> set (therapist_controls pg (k, s)))"
  using assms
  by (auto simp: provider_calls_startVideoCall startVideoCall_activates activate_call_def
      therapist_controls_def Let_def)

theorem startVideoCall_always_asks_provider_witness:
  "provider_calls (startVideoCall (showing [(''s1'', in_call)]) ''s1'' ''alice'' ''Alice''
      (Reply (Some ''room2'')) 9 (clinic_with in_call)) = 1 \<and>
   map_of (sessions (db (startVideoCall (showing [(''s1'', in_call)]) ''s1'' ''alice'' ''Alice''
      (Reply (Some ''room2'')) 9 (clinic_with in_call)))) ''s1'' =
     Some (activate_call ''room2'' 9 in_call) \<and>
   videoCallRoomId (activate_call ''room2'' 9 in_call) = Some ''room2''"
proof -
  have h1: "map_of (sessions (clinic_with in_call)) ''s1'' = Some in_call"
    by (simp add: clinic_with_def)
  have h2: "''room2'' \<noteq> []" by simp
  show ?thesis
    using startVideoCall_always_asks_provider [OF h1 h2, where pg = "showing [(''s1'', in_call)]"
        and patId = "''alice''" and patName = "''Alice''" and reply = "Reply (Some ''room2'')"
        and now = 9]
    by simp
qed

text \<open>C6 as stated fails: the call of the session is active in room1; the therapist's
  page, loaded afresh, offers "Start Video Call"; the click asks the provider for another
  room and room2 replaces room1 in the session.\<close>

theorem second_activation_counterexample:
  "videoCallStatus in_call = Some CallActive \<and> videoCallRoomId in_call = Some ''room1'' \<and>
   therapist_controls (showing [(''s1'', in_call)]) (''s1'', in_call) = [StartCall, MarkComplete] \<and>
   provider_calls (click StartCall lee (showing [(''s1'', in_call)]) (''s1'', in_call) ''Alice''
      (Reply (Some ''room2'')) 9 ''n1'' (clinic_with in_call)) = 1 \<and>
   map (\<lambda>ks. (fst ks, videoCallRoomId (snd ks), meetingId (snd ks)))
     (sessions (db (click StartCall lee (showing [(''s1'', in_call)]) (''s1'', in_call) ''Alice''
        (Reply (Some ''room2'')) 9 ''n1'' (clinic_with in_call)))) =
     [(''s1'', Some ''room2'', Some ''room2'')]"
  by (simp add: click_def therapist_controls_def request_is_pending_def call_shown_active_def
      showing_def in_call_def asked_def booked_def new_session_def startVideoCall_def
      checked_meeting_def createMeeting_def updateDoc_def patch_def clinic_with_def
      activate_call_def)

text \<open>
  C7. When the provider fails to give a room during activation (the request fails, or
  the reply has no room id or an empty one), \<^verbatim>\<open>startVideoCall\<close> writes nothing: the
  store is as it was (so the session document, its negotiation and its
  \<^verbatim>\<open>videoCallStatus\<close> are unchanged), the page's sessions and its active call are as they
  were, the user is told to try again, and trying again from the state left behind is
  the same as trying from the state before.
\<close>

theorem failed_provisioning_changes_nothing:
  assumes "reply = RequestFails \<or> reply = Reply None \<or> reply = Reply (Some [])"
  shows "db (startVideoCall pg k patId patName reply now st) = st \<and>
         t_sessions (page (startVideoCall pg k patId patName reply now st)) = t_sessions pg \<and>
         activeVideoCall (page (startVideoCall pg k patId patName reply now st)) =
           activeVideoCall pg \<and>
         alerts (startVideoCall pg k patId patName reply now st) =
           [''Failed to start video call. Please try again.''] \<and>
         timers (startVideoCall pg k patId patName reply now st) = [] \<and>
         startVideoCall (page (startVideoCall pg k patId patName reply now st)) k patId patName
             reply' now' (db (startVideoCall pg k patId patName reply now st)) =
           startVideoCall pg k patId patName reply' now' st"
proof -
  obtain e where e: "checked_meeting reply = Inl e"
    using checked_meeting_fails [OF assms] by blast
  then have r: "startVideoCall pg k patId patName reply now st = start_call_failed pg st"
    by (simp add: startVideoCall_def)
  show ?thesis
    unfolding r
    by (simp add: start_call_failed_def startVideoCall_def split: sum.splits)
qed

theorem failed_provisioning_changes_nothing_witness:
  "db (startVideoCall (showing [(''s1'', asked ReqAccepted 0)]) ''s1'' ''alice'' ''Alice''
        (Reply None) 9 (clinic_with (asked ReqAccepted 0))) = clinic_with (asked ReqAccepted 0) \<and>
   alerts (startVideoCall (showing [(''s1'', asked ReqAccepted 0)]) ''s1'' ''alice'' ''Alice''
        (Reply None) 9 (clinic_with (asked ReqAccepted 0))) =
     [''Failed to start video call. Please try again.'']"
proof -
  have h: "Reply None = RequestFails \<or> Reply None = Reply None \<or> Reply None = Reply (Some [])"
    by simp
  show ?thesis
    using failed_provisioning_changes_nothing [OF h,
        where pg = "showing [(''s1'', asked ReqAccepted 0)]" and k = "''s1''"
        and patId = "''alice''" and patName = "''Alice''" and now = 9
        and st = "clinic_with (asked ReqAccepted 0)"]
    by simp
qed

section \<open>Accepting a call request\<close>

lemma respond_writes_answer:
  assumes "map_of (sessions st) k = Some s"
  shows "\<exists>s1. map_of (sessions (db (respondToVideoCallRequest pg k resp patId patName now st))) k =
                Some s1 \<and>
              map_option req_status (videoCallRequest s1) = Some (request_status_of resp) \<and>
              map_option respondedAt (videoCallRequest s1) = Some (Some now) \<and>
              videoCallStatus s1 = videoCallStatus s \<and> status s1 = status s"
  using assms
  by (auto simp: sessions_respondToVideoCallRequest map_of_patch split: option.splits)

lemma respond_timers:
  assumes "map_of (sessions st) k = Some s"
  shows "timers (respondToVideoCallRequest pg k resp patId patName now st) =
           (case resp of Accepted \<Rightarrow> [(500, StartVideoCall k patId patName)] | Declined \<Rightarrow> [])"
  using assms by (simp add: respondToVideoCallRequest_def updateDoc_def)

lemma respond_missing_session:
  assumes "map_of (sessions st) k = None"
  shows "timers (respondToVideoCallRequest pg k resp patId patName now st) = [] \<and>
         db (respondToVideoCallRequest pg k resp patId patName now st) = st"
  using assms by (simp add: respondToVideoCallRequest_def updateDoc_def)

lemma startVideoCall_provider_fails:
  assumes "reply = RequestFails \<or> reply = Reply None \<or> reply = Reply (Some [])"
  shows "startVideoCall pg k patId patName reply now st = start_call_failed pg st"
proof -
  obtain e where "checked_meeting reply = Inl e"
    using checked_meeting_fails [OF assms] by blast
  then show ?thesis by (simp add: startVideoCall_def)
qed

text \<open>
  C10 (amended). Accepting a call request on a session whose document exists writes the
  accepted answer and, in the same operation, sets the timer (500 ms) that runs
  \<^verbatim>\<open>startVideoCall\<close> for this session; declining, or an accept whose write fails, sets
  none. The call becomes active only if the provider then returns a room: the session is
  then active in that room with the negotiation still accepted. When the provider fails,
  the timer's run writes nothing and leaves no timer, so the session stays accepted and
  not active.
\<close>

theorem accept_schedules_activation:
  assumes "map_of (sessions st) k = Some s" and "m \<noteq> []"
    and "bad = RequestFails \<or> bad = Reply None \<or> bad = Reply (Some [])"
  shows "timers (respondToVideoCallRequest pg k Accepted patId patName now st) =
           [(500, StartVideoCall k patId patName)] \<and>
         timers (respondToVideoCallRequest pg k Declined patId patName now st) = [] \<and>
         (map_of (sessions st2) k2 = None \<longrightarrow>
            timers (respondToVideoCallRequest pg k2 Accepted patId patName now st2) = [] \<and>
            db (respondToVideoCallRequest pg k2 Accepted patId patName now st2) = st2) \<and>
         (\<exists>s1. map_of (sessions (db (respondToVideoCallRequest pg k Accepted patId patName now st)))
                  k = Some s1 \<and>
               map_option req_status (videoCallRequest s1) = Some ReqAccepted \<and>
               videoCallStatus s1 = videoCallStatus s) \<and>
         (\<exists>s2. map_of (sessions (db (run_timer (StartVideoCall k patId patName)
                    (page (respondToVideoCallRequest pg k Accepted patId patName now st))
                    (Reply (Some m)) later
                    (db (respondToVideoCallRequest pg k Accepted patId patName now st))))) k =
                  Some s2 \<and>
               map_option req_status (videoCallRequest s2) = Some ReqAccepted \<and>
               videoCallStatus s2 = Some CallActive \<and> videoCallRoomId s2 = Some m \<and>
               meetingId s2 = Some m) \<and>
         db (run_timer (StartVideoCall k patId patName)
               (page (respondToVideoCallRequest pg k Accepted patId patName now st)) bad later
               (db (respondToVideoCallRequest pg k Accepted patId patName now st))) =
           db (respondToVideoCallRequest pg k Accepted patId patName now st) \<and>
         timers (run_timer (StartVideoCall k patId patName)
               (page (respondToVideoCallRequest pg k Accepted patId patName now st)) bad later
               (db (respondToVideoCallRequest pg k Accepted patId patName now st))) = [] \<and>
         (\<exists>s3. map_of (sessions (db (run_timer (StartVideoCall k patId patName)
                    (page (respondToVideoCallRequest pg k Accepted patId patName now st))
                    bad later
                    (db (respondToVideoCallRequest pg k Accepted patId patName now st))))) k =
                  Some s3 \<and>
               map_option req_status (videoCallRequest s3) = Some ReqAccepted \<and>
               videoCallStatus s3 = videoCallStatus s)"
proof -
  let ?r = "respondToVideoCallRequest pg k Accepted patId patName now st"
  obtain s1 where s1: "map_of (sessions (db ?r)) k = Some s1"
    and a1: "map_option req_status (videoCallRequest s1) = Some ReqAccepted"
    and v1: "videoCallStatus s1 = videoCallStatus s"
    using respond_writes_answer [OF assms(1), of pg Accepted patId patName now] by auto
  have good: "map_of (sessions (db (run_timer (StartVideoCall k patId patName) (page ?r)
                  (Reply (Some m)) later (db ?r)))) k = Some (activate_call m later s1)"
    using startVideoCall_activates [OF s1 assms(2)] by simp
  have acc: "map_option req_status (videoCallRequest (activate_call m later s1)) =
                   Some ReqAccepted"
    using a1 by (simp add: activate_call_def)
  have failed: "run_timer (StartVideoCall k patId patName) (page ?r) bad later (db ?r) =
                  start_call_failed (page ?r) (db ?r)"
    using startVideoCall_provider_fails [OF assms(3)] by simp
  have missing: "map_of (sessions st2) k2 = None \<longrightarrow>
            timers (respondToVideoCallRequest pg k2 Accepted patId patName now st2) = [] \<and>
            db (respondToVideoCallRequest pg k2 Accepted patId patName now st2) = st2"
    using respond_missing_session by blast
  show ?thesis
    unfolding failed
    using s1 a1 v1 good acc missing respond_timers [OF assms(1)]
    by (simp add: activate_call_def start_call_failed_def)
qed

theorem accept_schedules_activation_witness:
  "timers (respondToVideoCallRequest (showing [(''s1'', asked ReqPending 0)]) ''s1'' Accepted
             ''alice'' ''Alice'' 7 (clinic_with (asked ReqPending 0))) =
     [(500, StartVideoCall ''s1'' ''alice'' ''Alice'')] \<and>
   timers (respondToVideoCallRequest (showing [(''s1'', asked ReqPending 0)]) ''s1'' Declined
             ''alice'' ''Alice'' 7 (clinic_with (asked ReqPending 0))) = [] \<and>
   db (run_timer (StartVideoCall ''s1'' ''alice'' ''Alice'')
         (page (respondToVideoCallRequest (showing [(''s1'', asked ReqPending 0)]) ''s1'' Accepted
             ''alice'' ''Alice'' 7 (clinic_with (asked ReqPending 0)))) RequestFails 8
         (db (respondToVideoCallRequest (showing [(''s1'', asked ReqPending 0)]) ''s1'' Accepted
             ''alice'' ''Alice'' 7 (clinic_with (asked ReqPending 0))))) =
     db (respondToVideoCallRequest (showing [(''s1'', asked ReqPending 0)]) ''s1'' Accepted
             ''alice'' ''Alice'' 7 (clinic_with (asked ReqPending 0)))"
proof -
  have h1: "map_of (sessions (clinic_with (asked ReqPending 0))) ''s1'' = Some (asked ReqPending 0)"
    by (simp add: clinic_with_def)
  have h2: "''room1'' \<noteq> []" by simp
  have h3: "RequestFails = RequestFails \<or> RequestFails = Reply None \<or>
            RequestFails = Reply (Some [])" by simp
  show ?thesis
    using accept_schedules_activation [OF h1 h2 h3,
        where pg = "showing [(''s1'', asked ReqPending 0)]" and patId = "''alice''"
        and patName = "''Alice''" and now = 7 and later = 8]
    by simp
qed

text \<open>C10 as stated fails: the therapist accepts Alice's request, the timer runs
  \<^verbatim>\<open>startVideoCall\<close>, the provider fails: the session is accepted, its call is not
  active, no room is stored and no timer is left to try again.\<close>

theorem accepted_but_never_active_counterexample:
  "timers after_accept = [(500, StartVideoCall ''s1'' ''alice'' ''Alice'')] \<and>
   map (\<lambda>ks. (fst ks, map_option req_status (videoCallRequest (snd ks)),
              videoCallStatus (snd ks), videoCallRoomId (snd ks)))
     (sessions (db failed_start)) = [(''s1'', Some ReqAccepted, None, None)] \<and>
   timers failed_start = [] \<and>
   alerts failed_start = [''Failed to start video call. Please try again.'']"
proof -
  have a: "db after_accept =
             clinic_with (booked\<lparr>status := Confirmed,
               videoCallRequest :=
                 Some \<lparr>req_status = ReqAccepted, requestedAt = Some 0, respondedAt = Some 7,
                       requestedBy = Some ''alice''\<rparr>\<rparr>)"
    "timers after_accept = [(500, StartVideoCall ''s1'' ''alice'' ''Alice'')]"
    by (simp_all add: after_accept_def click_def therapist_controls_def request_is_pending_def
        call_shown_active_def showing_def asked_def booked_def new_session_def
        respondToVideoCallRequest_def updateDoc_def patch_def clinic_with_def alice_def)
  show ?thesis
    by (simp add: a failed_start_def startVideoCall_def checked_meeting_def createMeeting_def
        start_call_failed_def clinic_with_def booked_def new_session_def)
qed

section \<open>Removing a slot\<close>

lemma map_of_deleteDoc: "map_of (deleteDoc k col) k = None"
  unfolding deleteDoc_def by (induction col) auto

text \<open>
  C9 (amended). \<^verbatim>\<open>removeSlot\<close> deletes the slot document whatever its \<^verbatim>\<open>isBooked\<close>
  flag is, and there is no slot-in-use failure. The guard is on the Slots page: the
  remove button of a row whose slot the page holds as booked cannot be clicked, so from
  the page only slots it shows as unbooked are removed (after the confirmation).
\<close>

theorem removeSlot_deletes_whatever_the_flag:
  "map_of (therapistSlots (db (removeSlot pg k st))) k = None \<and>
   alerts (removeSlot pg k st) = [] \<and>
   (isBooked (snd ks) \<longrightarrow> click_remove pg ks confirmed st = unchanged pg st) \<and>
   (\<not> isBooked (snd ks) \<and> ks \<in> set (slots pg) \<and> confirmed \<longrightarrow>
      map_of (therapistSlots (db (click_remove pg ks confirmed st))) (fst ks) = None)"
  by (simp add: removeSlot_def map_of_deleteDoc click_remove_def remove_button_enabled_def
      handleRemoveSlot_def)

theorem removeSlot_deletes_whatever_the_flag_witness:
  "click_remove \<lparr>slots = [(''slot1'', taken_slot)]\<rparr> (''slot1'', taken_slot) True
       (clinic_with booked) =
     unchanged \<lparr>slots = [(''slot1'', taken_slot)]\<rparr> (clinic_with booked) \<and>
   map_of (therapistSlots (db (click_remove \<lparr>slots = [(''slot1'', open_slot)]\<rparr>
       (''slot1'', open_slot) True clinic))) ''slot1'' = None"
  using removeSlot_deletes_whatever_the_flag [where ks = "(''slot1'', taken_slot)"
      and pg = "\<lparr>slots = [(''slot1'', taken_slot)]\<rparr>" and confirmed = True
      and st = "clinic_with booked"]
    removeSlot_deletes_whatever_the_flag [where ks = "(''slot1'', open_slot)"
      and pg = "\<lparr>slots = [(''slot1'', open_slot)]\<rparr>" and confirmed = True and st = clinic]
  by (simp add: taken_slot_def open_slot_def)

text \<open>C9 as stated fails: slot1 is booked by Alice in the store; \<^verbatim>\<open>removeSlot\<close> deletes
  it without a failure. The page can get there: it loaded the slot while it was free, so
  its remove button is still enabled.\<close>

theorem booked_slot_removed_counterexample:
  "therapistSlots (clinic_with booked) =
     [(''slot1'', open_slot\<lparr>isBooked := True, bookedBy := Some ''alice'', bookedAt := Some 1\<rparr>)] \<and>
   therapistSlots (db (removeSlot \<lparr>slots = [(''slot1'', open_slot)]\<rparr> ''slot1''
       (clinic_with booked))) = [] \<and>
   alerts (removeSlot \<lparr>slots = [(''slot1'', open_slot)]\<rparr> ''slot1'' (clinic_with booked)) = [] \<and>
   remove_button_enabled (''slot1'', open_slot) \<and>
   therapistSlots (db (click_remove \<lparr>slots = [(''slot1'', open_slot)]\<rparr> (''slot1'', open_slot)
       True (clinic_with booked))) = []"
  by (simp add: removeSlot_def deleteDoc_def click_remove_def remove_button_enabled_def
      handleRemoveSlot_def clinic_with_def taken_slot_def open_slot_def)

section \<open>The call invariant\<close>

lemma set_patch:
  "ks \<in> set (patch k f col) \<Longrightarrow> ks \<in> set col \<or> (\<exists>s. (fst ks, s) \<in> set col \<and> snd ks = f s)"
  by (auto simp: patch_def split: if_splits)

lemma patch_keeps_invariant:
  assumes "\<forall>ks \<in> set col. P (snd ks)" and "\<And>s. P s \<Longrightarrow> P (f s)"
  shows "\<forall>ks \<in> set (patch k f col). P (snd ks)"
  using assms by (auto dest!: set_patch)

lemma step_keeps_room:
  assumes "step st st'" and "\<forall>ks \<in> set (sessions st). active_has_room (snd ks)"
  shows "\<forall>ks \<in> set (sessions st'). active_has_room (snd ks)"
  using assms(1)
proof (cases rule: step.cases)
  case (book u tp sl now newId)
  have "active_has_room (new_session u th sl now)" for th
    by (simp add: active_has_room_def new_session_def)
  then show ?thesis
    using sessions_bookSession [of u tp sl now newId st] assms(2) book
    by (auto simp: addDoc_def)
next
  case (update_status u pg k ns now newId)
  show ?thesis
    unfolding update_status sessions_updateSessionStatus
    by (rule patch_keeps_invariant [OF assms(2)]) (simp add: active_has_room_def)
next
  case (update_status_part009 u pg k ns now newId)
  show ?thesis
    unfolding update_status_part009 sessions_updateSessionStatus_part009
    by (rule patch_keeps_invariant [OF assms(2)]) (simp add: active_has_room_def)
next
  case (request u pp k thId thName now)
  show ?thesis
    unfolding request sessions_requestVideoCall
    by (rule patch_keeps_invariant [OF assms(2)]) (simp add: active_has_room_def)
next
  case (respond pg k resp patId patName now)
  show ?thesis
    unfolding respond sessions_respondToVideoCallRequest
    by (rule patch_keeps_invariant [OF assms(2)]) (simp add: active_has_room_def)
next
  case (start_call pg k patId patName reply now)
  show ?thesis
  proof (cases "checked_meeting reply")
    case (Inl e)
    then show ?thesis using start_call assms(2) by (simp add: sessions_startVideoCall)
  next
    case (Inr m)
    then have "m \<noteq> []"
      by (auto simp: checked_meeting_def split: sum.splits option.splits if_splits)
    then have "active_has_room (activate_call m now s)" for s
      by (simp add: active_has_room_def activate_call_def)
    then have "\<forall>ks \<in> set (patch k (activate_call m now) (sessions st)). active_has_room (snd ks)"
      by (intro patch_keeps_invariant [OF assms(2)])
    then show ?thesis
      using Inr start_call by (simp add: sessions_startVideoCall)
  qed
next
  case (end_call pg now)
  show ?thesis
  proof (cases "activeVideoCall pg")
    case None
    then show ?thesis using end_call assms(2) by (simp add: sessions_endVideoCall)
  next
    case (Some c)
    show ?thesis
      unfolding end_call sessions_endVideoCall Some option.case
      by (rule patch_keeps_invariant [OF assms(2)]) (simp add: active_has_room_def)
  qed
next
  case (remove_slot sp k)
  then show ?thesis using assms(2) by simp
qed

lemma steps_keep_room:
  assumes "step\<^sup>*\<^sup>* st st'" and "\<forall>ks \<in> set (sessions st). active_has_room (snd ks)"
  shows "\<forall>ks \<in> set (sessions st'). active_has_room (snd ks)"
  using assms by (induction rule: rtranclp_induct) (auto dest: step_keeps_room)

lemma therapist_call_buttons_need_confirmed:
  assumes "a \<in> set (therapist_controls pg ks)"
    and "a = AcceptCall \<or> a = DeclineCall \<or> a = StartCall \<or> a = EndCall"
  shows "status (snd ks) = Confirmed"
  using assms by (auto simp: therapist_controls_def Let_def split: if_splits)

lemma patient_call_buttons_need_confirmed:
  assumes "call_control pp now ks = RequestButton b \<or> call_control pp now ks = JoinButton m \<or>
           call_control pp now ks = RoomIdEntry \<or> call_control pp now ks = AwaitingTherapist"
  shows "status (snd ks) = Confirmed"
  using assms by (auto simp: call_control_def Let_def split: if_splits)

lemma card_buttons_of_page:
  "CardButton ks a \<in> set (therapist_page_controls pg) \<longleftrightarrow>
     ks \<in> set (t_sessions pg) \<and> a \<in> set (therapist_controls pg ks)"
  by (auto simp: therapist_page_controls_def split: option.splits)

lemma overlay_of_page:
  "LeaveCall \<in> set (therapist_page_controls pg) \<longleftrightarrow> activeVideoCall pg \<noteq> None"
  by (cases "activeVideoCall pg") (auto simp: therapist_page_controls_def)

lemma endVideoCall_ends:
  assumes "activeVideoCall pg = Some c" and "map_of (sessions st) (call_sessionId c) = Some s"
  shows "map_of (sessions (db (endVideoCall pg now st))) (call_sessionId c) =
           Some (s\<lparr>videoCallEnded := Some now, videoCallStatus := Some CallEnded\<rparr>)"
  using assms by (simp add: sessions_endVideoCall map_of_patch)

text \<open>
  C8 (amended). In every store reached from one without sessions by the writes of the
  pages, a session whose \<^verbatim>\<open>videoCallStatus\<close> is active has a room: a non-empty
  \<^verbatim>\<open>videoCallRoomId\<close>, and the same under \<^verbatim>\<open>meetingId\<close>. Its negotiation need not be
  accepted: the therapist's page offers "Start Video Call" on a confirmed session unless
  its request is pending. The functions of the negotiation (\<^verbatim>\<open>requestVideoCall\<close>,
  \<^verbatim>\<open>respondToVideoCallRequest\<close>, \<^verbatim>\<open>startVideoCall\<close>, \<^verbatim>\<open>endVideoCall\<close>) do not look at
  the session's status: on an existing session of any status they write their fields.
  The pages draw the call buttons of a card (request, join, accept, decline, start, end)
  only on cards whose status is confirmed; the call component of the therapist's page,
  drawn whenever the page has an active call and whatever the session's status, ends the
  call as well.
\<close>

theorem active_call_has_room:
  assumes "sessions st0 = []" and "step\<^sup>*\<^sup>* st0 st" and "(k, s) \<in> set (sessions st)"
    and "map_of (sessions st1) k1 = Some s1" and "m \<noteq> []"
  shows "(videoCallStatus s = Some CallActive \<longrightarrow>
            videoCallRoomId s \<noteq> None \<and> videoCallRoomId s \<noteq> Some [] \<and>
            meetingId s = videoCallRoomId s) \<and>
         (status (snd ks) = Confirmed \<and> \<not> request_is_pending (snd ks) \<and>
            \<not> call_shown_active (showing ss) (fst ks) \<longrightarrow>
            StartCall \<in> set (therapist_controls (showing ss) ks)) \<and>
         map_of (sessions (db (requestVideoCall u pp k1 thId thName now st1))) k1 =
           Some (s1\<lparr>videoCallRequest :=
                  Some \<lparr>req_status = ReqPending, requestedAt = Some now, respondedAt = None,
                        requestedBy = Some (user_id u)\<rparr>\<rparr>) \<and>
         (\<exists>s2. map_of (sessions (db (respondToVideoCallRequest pg k1 resp patId patName now st1)))
                  k1 = Some s2 \<and>
               map_option req_status (videoCallRequest s2) = Some (request_status_of resp) \<and>
               status s2 = status s1) \<and>
         map_of (sessions (db (startVideoCall pg k1 patId patName (Reply (Some m)) now st1))) k1 =
           Some (activate_call m now s1) \<and>
         videoCallStatus (activate_call m now s1) = Some CallActive \<and>
         status (activate_call m now s1) = status s1 \<and>
         (activeVideoCall pg = Some c \<and> call_sessionId c = k1 \<longrightarrow>
            LeaveCall \<in> set (therapist_page_controls pg) \<and>
            click_page LeaveCall v pg nm reply now newId st1 = endVideoCall pg now st1 \<and>
            map_of (sessions (db (endVideoCall pg now st1))) k1 =
              Some (s1\<lparr>videoCallEnded := Some now, videoCallStatus := Some CallEnded\<rparr>)) \<and>
         (\<forall>a \<in> set (therapist_controls pg ks).
            a = AcceptCall \<or> a = DeclineCall \<or> a = StartCall \<or> a = EndCall \<longrightarrow>
            status (snd ks) = Confirmed) \<and>
         (\<forall>ctl \<in> set (therapist_page_controls pg).
            ctl = LeaveCall \<and> activeVideoCall pg \<noteq> None \<or>
            (\<exists>card a. ctl = CardButton card a \<and> card \<in> set (t_sessions pg) \<and>
               a \<in> set (therapist_controls pg card))) \<and>
         (call_control pp rendered ks = RequestButton b \<or>
            call_control pp rendered ks = JoinButton room \<or>
            call_control pp rendered ks = RoomIdEntry \<or>
            call_control pp rendered ks = AwaitingTherapist \<longrightarrow>
            status (snd ks) = Confirmed)"
proof -
  have "\<forall>ks \<in> set (sessions st). active_has_room (snd ks)"
    using steps_keep_room [OF assms(2)] assms(1) by simp
  then have "active_has_room s"
    using assms(3) by force
  then have room: "videoCallStatus s = Some CallActive \<longrightarrow>
            videoCallRoomId s \<noteq> None \<and> videoCallRoomId s \<noteq> Some [] \<and>
            meetingId s = videoCallRoomId s"
    by (simp add: active_has_room_def)
  have start: "status (snd ks) = Confirmed \<and> \<not> request_is_pending (snd ks) \<and>
            \<not> call_shown_active (showing ss) (fst ks) \<longrightarrow>
            StartCall \<in> set (therapist_controls (showing ss) ks)"
    by (simp add: therapist_controls_def showing_def Let_def)
  have req: "map_of (sessions (db (requestVideoCall u pp k1 thId thName now st1))) k1 =
           Some (s1\<lparr>videoCallRequest :=
                  Some \<lparr>req_status = ReqPending, requestedAt = Some now, respondedAt = None,
                        requestedBy = Some (user_id u)\<rparr>\<rparr>)"
    by (rule requestVideoCall_writes_request [OF assms(4)])
  have resp: "\<exists>s2. map_of (sessions (db (respondToVideoCallRequest pg k1 resp patId patName now
                    st1))) k1 = Some s2 \<and>
               map_option req_status (videoCallRequest s2) = Some (request_status_of resp) \<and>
               status s2 = status s1"
    using respond_writes_answer [OF assms(4), of pg resp patId patName now] by blast
  have act: "map_of (sessions (db (startVideoCall pg k1 patId patName (Reply (Some m)) now st1)))
               k1 = Some (activate_call m now s1)"
    "videoCallStatus (activate_call m now s1) = Some CallActive"
    "status (activate_call m now s1) = status s1"
    using startVideoCall_activates [OF assms(4,5)] by (simp_all add: activate_call_def)
  have leave: "activeVideoCall pg = Some c \<and> call_sessionId c = k1 \<longrightarrow>
            LeaveCall \<in> set (therapist_page_controls pg) \<and>
            click_page LeaveCall v pg nm reply now newId st1 = endVideoCall pg now st1 \<and>
            map_of (sessions (db (endVideoCall pg now st1))) k1 =
              Some (s1\<lparr>videoCallEnded := Some now, videoCallStatus := Some CallEnded\<rparr>)"
    using endVideoCall_ends [of pg c st1 s1 now] assms(4)
    by (auto simp: overlay_of_page click_page_def)
  have cards: "\<forall>a \<in> set (therapist_controls pg ks).
            a = AcceptCall \<or> a = DeclineCall \<or> a = StartCall \<or> a = EndCall \<longrightarrow>
            status (snd ks) = Confirmed"
    using therapist_call_buttons_need_confirmed [of _ pg ks] by blast
  have ctls: "\<forall>ctl \<in> set (therapist_page_controls pg).
            ctl = LeaveCall \<and> activeVideoCall pg \<noteq> None \<or>
            (\<exists>card a. ctl = CardButton card a \<and> card \<in> set (t_sessions pg) \<and>
               a \<in> set (therapist_controls pg card))"
  proof
    fix ctl assume c: "ctl \<in> set (therapist_page_controls pg)"
    show "ctl = LeaveCall \<and> activeVideoCall pg \<noteq> None \<or>
            (\<exists>card a. ctl = CardButton card a \<and> card \<in> set (t_sessions pg) \<and>
               a \<in> set (therapist_controls pg card))"
    proof (cases ctl)
      case (CardButton card a)
      then show ?thesis using c card_buttons_of_page [of card a pg] by blast
    next
      case LeaveCall
      then show ?thesis using c overlay_of_page [of pg] by blast
    qed
  qed
  have pat: "call_control pp rendered ks = RequestButton b \<or>
            call_control pp rendered ks = JoinButton room \<or>
            call_control pp rendered ks = RoomIdEntry \<or>
            call_control pp rendered ks = AwaitingTherapist \<longrightarrow>
            status (snd ks) = Confirmed"
    using patient_call_buttons_need_confirmed [of pp rendered ks b room] by blast
  show ?thesis
    using room start req resp act leave cards ctls pat
    by (intro conjI)
qed

lemma click_steps: "step\<^sup>*\<^sup>* st (db (click a u pg ks nm reply now newId st))"
proof (cases "ks \<in> set (t_sessions pg) \<and> a \<in> set (therapist_controls pg ks)")
  case True
  then have "step st (db (click a u pg ks nm reply now newId st))"
    by (cases a) (simp_all add: click_def step.intros)
  then show ?thesis by (rule r_into_rtranclp)
next
  case False
  then have "click a u pg ks nm reply now newId st = unchanged pg st"
    by (auto simp: click_def)
  then show ?thesis by (simp add: unchanged_def)
qed

lemma run_timer_steps: "step\<^sup>*\<^sup>* st (db (run_timer t pg reply now st))"
  by (cases t) (simp_all add: unchanged_def r_into_rtranclp step.start_call)

lemma direct_call_reached: "step\<^sup>*\<^sup>* clinic (db direct_call)"
proof -
  have "step\<^sup>*\<^sup>* clinic after_booking"
    unfolding after_booking_def by (rule r_into_rtranclp) (rule step.book)
  also have "step\<^sup>*\<^sup>* after_booking (db after_confirm)"
    unfolding after_confirm_def by (rule click_steps)
  also have "step\<^sup>*\<^sup>* (db after_confirm) (db direct_call)"
    unfolding direct_call_def by (rule click_steps)
  finally show ?thesis .
qed

lemma after_booking_eval:
  "after_booking = \<lparr>sessions = [(''s1'', booked)], therapistSlots = [(''slot1'', taken_slot)],
                     sessionNotesDocs = []\<rparr>"
  by (simp add: after_booking_def bookSession_def loadSlots_def browsing_def clinic_def
      create_session_record_def mark_slot_booked_def updateDoc_def patch_def addDoc_def
      booked_def taken_slot_def alice_def)

lemma after_confirm_eval:
  "db after_confirm = \<lparr>sessions = [(''s1'', booked\<lparr>status := Confirmed, updatedAt := Some 2\<rparr>)],
                        therapistSlots = [(''slot1'', taken_slot)], sessionNotesDocs = []\<rparr>"
  "page after_confirm = showing [(''s1'', booked\<lparr>status := Confirmed\<rparr>)]"
  by (simp_all add: after_confirm_def after_booking_eval click_def therapist_controls_def
      showing_def booked_def new_session_def updateSessionStatus_def updateDoc_def patch_def
      note_to_save_def Let_def)

lemma direct_call_eval:
  "sessions (db direct_call) =
     [(''s1'', booked\<lparr>status := Confirmed, updatedAt := Some 2, videoCallStarted := Some 3,
                       videoCallStatus := Some CallActive, videoCallRoomId := Some ''room1'',
                       meetingId := Some ''room1''\<rparr>)]"
  by (simp add: direct_call_def after_confirm_eval click_def therapist_controls_def
      request_is_pending_def call_shown_active_def showing_def booked_def new_session_def
      startVideoCall_def checked_meeting_def createMeeting_def updateDoc_def patch_def
      activate_call_def)

theorem active_call_has_room_witness:
  "sessions (db direct_call) =
     [(''s1'', booked\<lparr>status := Confirmed, updatedAt := Some 2, videoCallStarted := Some 3,
                       videoCallStatus := Some CallActive, videoCallRoomId := Some ''room1'',
                       meetingId := Some ''room1''\<rparr>)] \<and>
   videoCallRoomId (snd (hd (sessions (db direct_call)))) \<noteq> None \<and>
   videoCallRoomId (snd (hd (sessions (db direct_call)))) \<noteq> Some [] \<and>
   meetingId (snd (hd (sessions (db direct_call)))) =
     videoCallRoomId (snd (hd (sessions (db direct_call)))) \<and>
   StartCall \<in> set (therapist_controls (showing [(''s1'', booked\<lparr>status := Confirmed\<rparr>)])
                      (''s1'', booked\<lparr>status := Confirmed\<rparr>)) \<and>
   map_of (sessions (db (startVideoCall (showing []) ''s1'' ''alice'' ''Alice''
       (Reply (Some ''room2'')) 9 (clinic_with (booked\<lparr>status := Completed\<rparr>))))) ''s1'' =
     Some (activate_call ''room2'' 9 (booked\<lparr>status := Completed\<rparr>))"
proof -
  let ?s = "booked\<lparr>status := Confirmed, updatedAt := Some 2, videoCallStarted := Some 3,
                   videoCallStatus := Some CallActive, videoCallRoomId := Some ''room1'',
                   meetingId := Some ''room1''\<rparr>"
  have h1: "sessions clinic = []" by (simp add: clinic_def)
  have h3: "(''s1'', ?s) \<in> set (sessions (db direct_call))" by (simp add: direct_call_eval)
  have h4: "map_of (sessions (clinic_with (booked\<lparr>status := Completed\<rparr>))) ''s1'' =
              Some (booked\<lparr>status := Completed\<rparr>)"
    by (simp add: clinic_with_def)
  have h5: "''room2'' \<noteq> []" by simp
  have c: "status (booked\<lparr>status := Confirmed\<rparr>) = Confirmed \<and>
           \<not> request_is_pending (booked\<lparr>status := Confirmed\<rparr>) \<and>
           \<not> call_shown_active (showing [(''s1'', booked\<lparr>status := Confirmed\<rparr>)]) ''s1''"
    by (simp add: request_is_pending_def call_shown_active_def showing_def booked_def
        new_session_def)
  show ?thesis
    using active_call_has_room [OF h1 direct_call_reached h3 h4 h5,
        where ks = "(''s1'', booked\<lparr>status := Confirmed\<rparr>)"
        and ss = "[(''s1'', booked\<lparr>status := Confirmed\<rparr>)]"
        and pg = "showing []" and patId = "''alice''" and patName = "''Alice''" and now = 9] c
    by (simp add: direct_call_eval)
qed

text \<open>C8 as stated fails, in both halves. Alice books, the therapist accepts the booking
  and starts a call from the card: the call is active and there is no request at all, so
  none that is accepted. And with an accepted request, the therapist marks the session
  complete before the timer of the acceptance runs: the call is then activated on a
  completed session, and ended on it from the call component of the page.\<close>

theorem active_without_accepted_request_counterexample:
  "map (\<lambda>ks. (fst ks, status (snd ks), videoCallStatus (snd ks), videoCallRequest (snd ks),
              request_accepted (snd ks)))
     (sessions (db direct_call)) =
     [(''s1'', Confirmed, Some CallActive, None, False)] \<and>
   timers after_accept = [(500, StartVideoCall ''s1'' ''alice'' ''Alice'')] \<and>
   map (\<lambda>ks. (fst ks, status (snd ks))) (sessions (db after_complete)) = [(''s1'', Completed)] \<and>
   map (\<lambda>ks. (fst ks, status (snd ks), videoCallStatus (snd ks), videoCallRoomId (snd ks)))
     (sessions (db late_call)) =
     [(''s1'', Completed, Some CallActive, Some ''room1'')] \<and>
   therapist_page_controls (page late_call) = [LeaveCall] \<and>
   map (\<lambda>ks. (fst ks, status (snd ks), videoCallStatus (snd ks))) (sessions (db late_leave)) =
     [(''s1'', Completed, Some CallEnded)]"
proof -
  have a: "db after_accept =
             clinic_with (booked\<lparr>status := Confirmed,
               videoCallRequest :=
                 Some \<lparr>req_status = ReqAccepted, requestedAt = Some 0, respondedAt = Some 7,
                       requestedBy = Some ''alice''\<rparr>\<rparr>)"
    "page after_accept =
       showing [(''s1'', booked\<lparr>status := Confirmed,
               videoCallRequest :=
                 Some \<lparr>req_status = ReqAccepted, requestedAt = Some 0, respondedAt = Some 7,
                       requestedBy = Some ''alice''\<rparr>\<rparr>)]"
    "timers after_accept = [(500, StartVideoCall ''s1'' ''alice'' ''Alice'')]"
    by (simp_all add: after_accept_def click_def therapist_controls_def request_is_pending_def
        call_shown_active_def showing_def asked_def booked_def new_session_def
        respondToVideoCallRequest_def updateDoc_def patch_def clinic_with_def alice_def)
  have b: "sessions (db after_complete) =
             [(''s1'', booked\<lparr>status := Completed, updatedAt := Some 8,
               videoCallRequest :=
                 Some \<lparr>req_status = ReqAccepted, requestedAt = Some 0, respondedAt = Some 7,
                       requestedBy = Some ''alice''\<rparr>\<rparr>)]"
    "page after_complete =
       showing [(''s1'', booked\<lparr>status := Completed,
               videoCallRequest :=
                 Some \<lparr>req_status = ReqAccepted, requestedAt = Some 0, respondedAt = Some 7,
                       requestedBy = Some ''alice''\<rparr>\<rparr>)]"
    by (simp_all add: after_complete_def a click_def therapist_controls_def
        request_is_pending_def call_shown_active_def showing_def booked_def new_session_def
        updateSessionStatus_def updateDoc_def patch_def clinic_with_def note_to_save_def Let_def)
  have c: "sessions (db late_call) =
             [(''s1'', booked\<lparr>status := Completed, updatedAt := Some 8,
               videoCallRequest :=
                 Some \<lparr>req_status = ReqAccepted, requestedAt = Some 0, respondedAt = Some 7,
                       requestedBy = Some ''alice''\<rparr>,
               videoCallStarted := Some 9, videoCallStatus := Some CallActive,
               videoCallRoomId := Some ''room1'', meetingId := Some ''room1''\<rparr>)]"
    by (simp add: late_call_def startVideoCall_def checked_meeting_def createMeeting_def
        updateDoc_def patch_def activate_call_def b)
  have p: "page late_call =
       \<lparr>t_sessions = [(''s1'', booked\<lparr>status := Completed,
               videoCallRequest :=
                 Some \<lparr>req_status = ReqAccepted, requestedAt = Some 0, respondedAt = Some 7,
                       requestedBy = Some ''alice''\<rparr>,
               videoCallStatus := Some CallActive,
               videoCallRoomId := Some ''room1'', meetingId := Some ''room1''\<rparr>)],
        sessionNotes = [], updating = None,
        activeVideoCall = Some \<lparr>call_sessionId = ''s1'', call_peerName = ''Alice'',
                                call_peerId = ''alice'', call_meetingId = Some ''room1''\<rparr>,
        videoCallLoading = None\<rparr>"
    by (simp add: late_call_def startVideoCall_def checked_meeting_def createMeeting_def
        updateDoc_def patch_def activate_call_def b showing_def)
  have ctl: "therapist_page_controls (page late_call) = [LeaveCall]"
    by (simp add: p therapist_page_controls_def therapist_controls_def booked_def
        new_session_def)
  have d: "sessions (db late_leave) =
             [(''s1'', booked\<lparr>status := Completed, updatedAt := Some 8,
               videoCallRequest :=
                 Some \<lparr>req_status = ReqAccepted, requestedAt = Some 0, respondedAt = Some 7,
                       requestedBy = Some ''alice''\<rparr>,
               videoCallStarted := Some 9, videoCallStatus := Some CallEnded,
               videoCallRoomId := Some ''room1'', meetingId := Some ''room1'',
               videoCallEnded := Some 10\<rparr>)]"
  proof -
    have e: "late_leave = endVideoCall (page late_call) 10 (db late_call)"
      by (simp add: late_leave_def click_page_def ctl)
    show ?thesis
      unfolding e by (simp add: endVideoCall_def p c updateDoc_def patch_def)
  qed
  show ?thesis
    by (simp add: direct_call_eval a b c d ctl request_accepted_def booked_def new_session_def)
qed

end
